theory Spec2Isabelle
  imports Complex_Main "HOL-Library.Sublist"
begin

section \<open>Data model of \<^verbatim>\<open>src/app/colorcodebot.py\<close>\<close>

text \<open>
  The bot is one Python file. Its handlers read three key-value tables, call a language
  classifier (guesslang), a renderer (the \<^verbatim>\<open>silicon\<close> program) and the Telegram API,
  and log. The model keeps the tables and a trace of every call that leaves the process
  in a record \<open>world\<close>; an exception is the value \<open>Inl e\<close> of a handler's result.

  The text of a message, and the code taken from it, is a Python \<open>str\<close> holding
  what a user typed, as is the language tag of a code block. Each is modelled as
  \<open>pystr\<close>, the list of its Unicode code points:
  Python indexes and slices a \<open>str\<close> by code point. The strings the program writes
  itself or compares with its own literals (entity and chat types, roles, syntax names,
  log lines, paths) are modelled as \<open>string\<close>, and \<open>str\<close> reads such a literal as
  a \<open>pystr\<close>. Chat, user and message ids are \<open>int\<close>, entity offsets and lengths
  (non-negative in the Telegram API) are \<open>nat\<close>, and the classifier's probability (a
  Python float) is the \<open>real\<close> it stands for: the code only compares it with the
  threshold.
\<close>

type_synonym pystr = "nat list"

definition str :: "string \<Rightarrow> pystr" where
  "str s = map of_char s"

datatype error =
    ConnectionError
  | ApiException
  | AttributeError
  | KeyError
  | IndexError
  | ProcessExecutionError
  | UnboundLocalError
  | RuntimeError
  | ContractViolation

text \<open>
  \<^verbatim>\<open>telebot.types.MessageEntity\<close>: \<open>language\<close>, the tag the sender gave a code
  block, is \<open>None\<close> when the entity has no tag.
\<close>

record entity =
  etype :: string
  offset :: nat
  elength :: nat
  language :: "pystr option"

text \<open>
  \<^verbatim>\<open>telebot.types.Message\<close>, with the attributes the handlers read. \<open>entities\<close> is
  \<open>[]\<close> for Python's \<open>None\<close> as well (both are falsy, and the code only tests the
  truth value before it iterates). \<open>from_user\<close> holds the sender's id, and
  \<open>msg_text\<close> is the attribute \<open>text\<close> (a reserved word here).
\<close>

datatype message = Message
  (message_id: int)
  (chat_id: int)
  (chat_type: string)
  (from_user: "int option")
  (msg_text: pystr)
  (entities: "entity list")
  (reply_to_message: "message option")

text \<open>
  \<^verbatim>\<open>telebot.types.CallbackQuery\<close>. The payload \<open>data\<close> is YAML written by the bot itself
  (\<open>ydump\<close>); the model holds it parsed: the \<open>ext\<close> field of a \<open>set ext\<close> action.
\<close>

record callback_query =
  cq_id :: int
  cq_from_user :: int
  cq_message :: message
  cq_ext :: string

text \<open>The message the gateway returns for an upload or a reply.\<close>

record sent =
  sent_chat_id :: int
  sent_message_id :: int
  sent_content_type :: string
  sent_file_id :: string

datatype button = BegoneButton | SendToChat string | RestoreButton string

datatype keyboard = NamedKb string | Buttons "button list"

datatype reply = QueryExt | QueryExtGuessed string

datatype event =
    Log string
  | Probabilities pystr
  | GetChatMember int int
  | ReplyTo int reply keyboard
  | MkPng "pystr option" string string
  | SendChatAction int
  | SendPhoto int string int
  | SendDocument int string int
  | EditMessageReplyMarkup int int keyboard
  | DeleteMessage int int
  | AnswerCallbackQuery int
  | DeleteAfterDelay sent nat

text \<open>
  The state of \<open>ColorCodeBot\<close>: the three \<open>KeyValue\<close> tables of \<open>__init__\<close> and the
  trace of calls made so far, the latest last.
\<close>

record world =
  group_syntaxes :: "int \<rightharpoonup> string"
  ignore_mode_groups :: "int \<rightharpoonup> bool"
  group_user_current_watchme_requests :: "string \<rightharpoonup> string"
  trace :: "event list"

text \<open>
  The configuration tables of \<open>load_configs\<close>. The files \<^verbatim>\<open>guesslang.yml\<close> and
  \<^verbatim>\<open>silicon.yml\<close> are not part of the sources, so both tables are parameters.
\<close>

record config =
  guesslang_syntaxes :: "string \<rightharpoonup> string"
  silicon_syntaxes :: "pystr \<rightharpoonup> string"

text \<open>
  The collaborators: what each call to the outside answers, as a function of the call's
  arguments: the classifier \<open>Guess.probabilities\<close>, the \<open>silicon\<close> run of \<open>mk_png\<close>
  (the path of the image, or the exception), the size of an image file, and the methods
  of \<open>TeleBot\<close>.
\<close>

record collaborators =
  probabilities :: "pystr \<Rightarrow> error + (string \<times> real) list"
  silicon :: "pystr option \<Rightarrow> string \<Rightarrow> string \<Rightarrow> error + string"
  st_size :: "string \<Rightarrow> nat"
  get_chat_member :: "int \<Rightarrow> int \<Rightarrow> error + string"
  reply_to :: "int \<Rightarrow> reply \<Rightarrow> error + sent"
  send_chat_action :: "int \<Rightarrow> error + unit"
  send_photo :: "int \<Rightarrow> string \<Rightarrow> int \<Rightarrow> error + sent"
  send_document :: "int \<Rightarrow> string \<Rightarrow> int \<Rightarrow> error + sent"
  edit_message_reply_markup :: "int \<Rightarrow> int \<Rightarrow> keyboard \<Rightarrow> error + unit"
  delete_message :: "int \<Rightarrow> int \<Rightarrow> error + unit"
  answer_callback_query :: "int \<Rightarrow> error + unit"

section \<open>Running a handler: state, exceptions, calls\<close>

type_synonym 'a action = "world \<Rightarrow> (error + 'a) \<times> world"

definition done_with :: "'a \<Rightarrow> 'a action" where
  "done_with a w = (Inr a, w)"

definition raise :: "error \<Rightarrow> 'a action" where
  "raise e w = (Inl e, w)"

text \<open>Sequencing: an exception of the first action skips the second.\<close>

definition and_then :: "'a action \<Rightarrow> ('a \<Rightarrow> 'b action) \<Rightarrow> 'b action" where
  "and_then f g w = (case f w of (Inl e, w') \<Rightarrow> (Inl e, w') | (Inr a, w') \<Rightarrow> g a w')"

text \<open>A call to the outside: the trace records it, whatever it answers.\<close>

definition call :: "event \<Rightarrow> (error + 'a) \<Rightarrow> 'a action" where
  "call ev answer w = (answer, w\<lparr>trace := trace w @ [ev]\<rparr>)"

definition log_msg :: "string \<Rightarrow> unit action" where
  "log_msg s = call (Log s) (Inr ())"

text \<open>
  The decorator \<open>retry\<close>: \<open>attempts\<close> times round the loop, another attempt only
  after a \<open>ConnectionError\<close> (the default of \<open>exceptions\<close>); any other exception
  leaves at once, and after the last attempt the last error is raised. With zero
  attempts \<open>resp\<close> is never bound. \<open>has_logger\<close> is true for the methods of
  \<open>ColorCodeBot\<close> (the instance has \<open>log\<close>); the message is logged after a failed
  attempt that was not the first. \<open>sleep\<close> is not modelled.
\<close>

fun retry_loop :: "nat \<Rightarrow> nat \<Rightarrow> bool \<Rightarrow> 'a action \<Rightarrow> error option \<Rightarrow> 'a action" where
  "retry_loop 0 attempt has_logger original last_error w =
     (case last_error of Some e \<Rightarrow> (Inl e, w) | None \<Rightarrow> (Inl UnboundLocalError, w))"
| "retry_loop (Suc n) attempt has_logger original last_error w =
     (case original w of
        (Inr resp, w') \<Rightarrow> (Inr resp, w')
      | (Inl e, w') \<Rightarrow>
          if e = ConnectionError
          then retry_loop n (Suc attempt) has_logger original (Some e)
                 (if has_logger \<and> attempt > 0 then snd (log_msg ''called retry-able'' w') else w')
          else (Inl e, w'))"

definition retry :: "bool \<Rightarrow> 'a action \<Rightarrow> 'a action" where
  "retry has_logger original = retry_loop 6 0 has_logger original None"

section \<open>Pure helpers\<close>

text \<open>Truth value of an \<open>Optional[str]\<close>: \<open>None\<close> and the empty string are falsy.\<close>

fun truthy :: "string option \<Rightarrow> bool" where
  "truthy None = False"
| "truthy (Some s) = (s \<noteq> [])"

text \<open>\<open>str.startswith\<close>.\<close>

definition startswith :: "pystr \<Rightarrow> pystr \<Rightarrow> bool" where
  "startswith s start = prefix start s"

text \<open>
  \<open>str.isspace\<close> for one character: the code points Python counts as white space
  (tab to carriage return, the separators U+001C to U+001F, space, U+0085, U+00A0,
  U+1680, U+2000 to U+200A, U+2028, U+2029, U+202F, U+205F and U+3000).
\<close>

definition isspace :: "nat \<Rightarrow> bool" where
  "isspace c =
     ((0x09 \<le> c \<and> c \<le> 0x0D) \<or> (0x1C \<le> c \<and> c \<le> 0x20) \<or> c = 0x85 \<or> c = 0xA0
      \<or> c = 0x1680 \<or> (0x2000 \<le> c \<and> c \<le> 0x200A) \<or> c = 0x2028 \<or> c = 0x2029
      \<or> c = 0x202F \<or> c = 0x205F \<or> c = 0x3000)"

text \<open>\<open>str.split()\<close> with no argument: the maximal runs of non-space characters.\<close>

fun split_from :: "pystr \<Rightarrow> pystr \<Rightarrow> pystr list" where
  "split_from cur [] = (if cur = [] then [] else [cur])"
| "split_from cur (c # cs) =
     (if isspace c
      then (if cur = [] then split_from [] cs else cur # split_from [] cs)
      else split_from (cur @ [c]) cs)"

definition split :: "pystr \<Rightarrow> pystr list" where
  "split s = split_from [] s"

text \<open>\<open>sep.join(parts)\<close>.\<close>

fun join :: "pystr \<Rightarrow> pystr list \<Rightarrow> pystr" where
  "join sep [] = []"
| "join sep [x] = x"
| "join sep (x # y # ys) = x @ sep @ join sep (y # ys)"

text \<open>
  \<open>str(i)\<close> for an int, as the f-string of the override key formats it, in decimal
  with a minus sign. \<open>digit_char\<close> is only applied to numbers below ten.
\<close>

definition digit_char :: "nat \<Rightarrow> char" where
  "digit_char d = ''0123456789'' ! d"

fun digits :: "nat \<Rightarrow> string" where
  "digits n = (if n < 10 then [digit_char n] else digits (n div 10) @ [digit_char (n mod 10)])"

declare digits.simps [simp del]

definition str_int :: "int \<Rightarrow> string" where
  "str_int i = (if i < 0 then CHR ''-'' # digits (nat (- i)) else digits (nat i))"

text \<open>The key \<open>f"{message.chat.id}:{message.from_user.id}"\<close> of the override table.\<close>

definition watchme_key :: "int \<Rightarrow> int \<Rightarrow> string" where
  "watchme_key chat user = str_int chat @ '':'' @ str_int user"

section \<open>Content extraction and the syntax tables\<close>

text \<open>
  \<open>code_subcontent\<close>: the text of the \<open>code\<close> and \<open>pre\<close> entities, joined by a blank
  line, when it has more than one word. Its locals \<open>code_entities\<close> and \<open>code_content\<close>
  are definitions of their own. The slice \<open>text[offset : offset + length]\<close> never
  raises: it is cut at the end of the text.
\<close>

definition code_entities :: "message \<Rightarrow> entity list" where
  "code_entities message = filter (\<lambda>e. etype e \<in> set [''code'', ''pre'']) (entities message)"

definition code_content :: "message \<Rightarrow> pystr" where
  "code_content message =
     join [0x0A, 0x0A]
       (map (\<lambda>e. take (elength e) (drop (offset e) (msg_text message))) (code_entities message))"

definition code_subcontent :: "message \<Rightarrow> pystr option" where
  "code_subcontent message =
     (if entities message \<noteq> [] then
        (if code_entities message \<noteq> [] then
           (if length (split (code_content message)) > 1 then Some (code_content message) else None)
         else None)
      else None)"

text \<open>
  What an entity marks. The Telegram Bot API, which is not part of the sources, counts
  \<open>offset\<close> and \<open>length\<close> of a \<open>MessageEntity\<close> in UTF-16 code units: a code
  point from U+10000 on takes two units, any other takes one. \<open>marked_span\<close> is the
  part of the text whose units lie in the entity's range; the bot never computes it.
\<close>

definition utf16_units :: "nat \<Rightarrow> nat" where
  "utf16_units c = (if c \<ge> 0x10000 then 2 else 1)"

fun utf16_slice :: "nat \<Rightarrow> nat \<Rightarrow> nat \<Rightarrow> pystr \<Rightarrow> pystr" where
  "utf16_slice pos lo hi [] = []"
| "utf16_slice pos lo hi (c # cs) =
     (if lo \<le> pos \<and> pos < hi then [c] else []) @ utf16_slice (pos + utf16_units c) lo hi cs"

definition marked_span :: "message \<Rightarrow> entity \<Rightarrow> pystr" where
  "marked_span message e = utf16_slice 0 (offset e) (offset e + elength e) (msg_text message)"

text \<open>\<open>code_specified_syntax\<close>: the language of the first \<open>pre\<close> entity, through \<open>silicon_syntaxes\<close>.\<close>

definition code_specified_syntax :: "config \<Rightarrow> message \<Rightarrow> string option" where
  "code_specified_syntax cfg message =
     (if entities message \<noteq> [] then
        (case filter (\<lambda>e. etype e = ''pre'') (entities message) of
           [] \<Rightarrow> None
         | e0 # _ \<Rightarrow>
             (case language e0 of
                None \<Rightarrow> None
              | Some lang \<Rightarrow> if lang \<noteq> [] then silicon_syntaxes cfg lang else None))
      else None)"

text \<open>
  The dictionary literal of \<open>guess_ext\<close>, in the order it is written (a Python dict
  iterates in insertion order; no key is written twice).
\<close>

definition simple_guesses :: "(pystr \<times> string) list" where
  "simple_guesses =
     [(str ''{'', ''json''),
      (str ''---'' @ [0x0A], ''yaml''),
      (str ''--- '', ''diff''),
      (str ''-- '', ''lua''),
      ([0x5C], ''tex''),
      (str ''%%'', ''tex''),
      (str ''[['', ''toml''), (str ''['', ''ini''),
      (str ''<?php'', ''php''), (str ''<'', ''xml''),
      (str ''! '', ''factor''),
      (str '': '', ''factor''),
      (str ''USING: '', ''factor''),
      (str ''IN: '', ''factor'')]"

text \<open>The \<open>for start, ext in ....items()\<close> loop: the first \<open>start\<close> the code starts with.\<close>

fun first_start :: "(pystr \<times> string) list \<Rightarrow> pystr \<Rightarrow> string option" where
  "first_start [] code = None"
| "first_start ((start, ext) # rest) code =
     (if startswith code start then Some ext else first_start rest code)"

text \<open>
  The default of \<open>probability_min\<close>. The literal \<open>0.12\<close> is the double nearest to
  it, \<open>0x1.eb851eb851eb8p-4\<close>; the value of a float is a real number, and \<open>>=\<close> on
  floats (none of them NaN) is \<open>\<ge>\<close> on their values.
\<close>

definition probability_min_default :: real where
  "probability_min_default = 1080863910568919 / 2 ^ 53"

text \<open>
  \<open>guess_ext\<close>: the top guess of the classifier decides when its probability reaches
  \<open>probability_min\<close>, mapped or not; below it the prefixes are tried.
\<close>

definition guess_ext :: "collaborators \<Rightarrow> config \<Rightarrow> pystr \<Rightarrow> real \<Rightarrow> string option action" where
  "guess_ext env cfg code probability_min =
     and_then (call (Probabilities code) (probabilities env code)) (\<lambda>guesses.
       case guesses of
         [] \<Rightarrow> raise IndexError
       | (syntax, probability) # _ \<Rightarrow>
           (let ext = guesslang_syntaxes cfg syntax in
            and_then (log_msg ''guessed syntax'') (\<lambda>_.
              if probability \<ge> probability_min then done_with ext
              else (case first_start simple_guesses code of
                      Some ext' \<Rightarrow>
                        and_then (log_msg ''simple-guessed syntax'') (\<lambda>_. done_with (Some ext'))
                    | None \<Rightarrow> done_with None))))"

section \<open>Rendering and sending\<close>

definition mk_png :: "collaborators \<Rightarrow> pystr option \<Rightarrow> string \<Rightarrow> string \<Rightarrow> string action" where
  "mk_png env code ext theme = call (MkPng code ext theme) (silicon env code ext theme)"

definition minikb :: "string \<Rightarrow> keyboard" where
  "minikb kb_name = Buttons [RestoreButton kb_name, BegoneButton]"

text \<open>
  \<open>send_image\<close>: a small image goes as a photo; an \<open>ApiException\<close> there is caught
  (and logged when a logger was passed), and the image goes as a document.
\<close>

definition send_image_body :: "collaborators \<Rightarrow> int \<Rightarrow> string \<Rightarrow> int \<Rightarrow> bool \<Rightarrow> sent action" where
  "send_image_body env chat png_path reply_msg_id has_log =
     and_then (call (SendChatAction chat) (send_chat_action env chat)) (\<lambda>_.
       let document = call (SendDocument chat png_path reply_msg_id)
                           (send_document env chat png_path reply_msg_id) in
       if st_size env png_path < 300000 then
         (\<lambda>w. case call (SendPhoto chat png_path reply_msg_id)
                         (send_photo env chat png_path reply_msg_id) w of
                 (Inr photo_msg, w') \<Rightarrow> (Inr photo_msg, w')
               | (Inl e, w') \<Rightarrow>
                   if e = ApiException
                   then (if has_log
                         then and_then (log_msg ''failed to send compressed image'') (\<lambda>_. document) w'
                         else document w')
                   else (Inl e, w'))
       else document)"

definition send_image :: "collaborators \<Rightarrow> int \<Rightarrow> string \<Rightarrow> int \<Rightarrow> bool \<Rightarrow> sent action" where
  "send_image env chat png_path reply_msg_id has_log =
     retry False (send_image_body env chat png_path reply_msg_id has_log)"

text \<open>The body of the loop \<open>for theme in themes\<close> of \<open>set_snippet_filetype\<close>, and the loop.\<close>

fun send_themes ::
  "collaborators \<Rightarrow> message \<Rightarrow> pystr option \<Rightarrow> string \<Rightarrow> bool \<Rightarrow> string list \<Rightarrow> unit action" where
  "send_themes env snippet text_content ext do_attach_send_kb [] = done_with ()"
| "send_themes env snippet text_content ext do_attach_send_kb (theme # themes) =
     and_then (mk_png env text_content ext theme) (\<lambda>png_path.
     and_then (send_image env (chat_id snippet) png_path (message_id snippet) False) (\<lambda>photo_msg.
     let image_kb = Buttons
           ((if do_attach_send_kb \<and> sent_content_type photo_msg = ''photo''
             then [SendToChat (''img '' @ sent_file_id photo_msg)] else [])
            @ [BegoneButton]) in
     and_then (call (EditMessageReplyMarkup (sent_chat_id photo_msg) (sent_message_id photo_msg) image_kb)
                 (edit_message_reply_markup env (sent_chat_id photo_msg) (sent_message_id photo_msg) image_kb)) (\<lambda>_.
     send_themes env snippet text_content ext do_attach_send_kb themes)))"

text \<open>
  \<open>set_snippet_filetype\<close>, called with a callback query (a button of the syntax
  keyboard) or with a snippet and its syntax (from \<open>intake_snippet\<close>).
\<close>

definition set_snippet_filetype_body ::
  "collaborators \<Rightarrow> callback_query option \<Rightarrow> message option \<Rightarrow> string option \<Rightarrow> unit action" where
  "set_snippet_filetype_body env cb_query snippet ext =
     and_then
       (case cb_query of
          Some q \<Rightarrow>
            (let query_message = cq_message q in
             and_then (call (EditMessageReplyMarkup (chat_id query_message) (message_id query_message)
                               (minikb ''syntax''))
                         (edit_message_reply_markup env (chat_id query_message) (message_id query_message)
                               (minikb ''syntax''))) (\<lambda>_.
               done_with (reply_to_message query_message, cq_ext q)))
        | None \<Rightarrow>
            (case (snippet, ext) of
               (Some s, Some e) \<Rightarrow> if e \<noteq> [] then done_with (Some s, e) else raise ContractViolation
             | _ \<Rightarrow> raise ContractViolation))
       (\<lambda>(snippet, ext).
          case snippet of
            None \<Rightarrow> raise AttributeError
          | Some snippet \<Rightarrow>
              (case from_user snippet of
                 None \<Rightarrow> raise AttributeError
               | Some _ \<Rightarrow>
                   and_then (log_msg ''colorizing code'') (\<lambda>_.
                     let private = (chat_type snippet = ''private'');
                         text_content = (if \<not> private then code_subcontent snippet
                                         else Some (msg_text snippet));
                         do_send_image_light = private;
                         do_attach_send_kb = private;
                         themes = [''Coldark-Dark'']
                                  @ (if do_send_image_light then [''Coldark-Cold''] else []) in
                     and_then (send_themes env snippet text_content ext do_attach_send_kb themes) (\<lambda>_.
                       case cb_query of
                         Some q \<Rightarrow> call (AnswerCallbackQuery (cq_id q)) (answer_callback_query env (cq_id q))
                       | None \<Rightarrow> done_with ()))))"

definition set_snippet_filetype ::
  "collaborators \<Rightarrow> callback_query option \<Rightarrow> message option \<Rightarrow> string option \<Rightarrow> unit action" where
  "set_snippet_filetype env cb_query snippet ext =
     retry True (set_snippet_filetype_body env cb_query snippet ext)"

section \<open>The handlers\<close>

text \<open>
  \<open>intake_snippet\<close> is modelled in the three parts it is written in. The first
  (the two \<open>return\<close>s before \<open>text_content = message.text\<close>) is the consent gate:
  \<open>should_process\<close> is true when neither \<open>return\<close> is taken. The chat type is not
  read there.
\<close>

definition should_process :: "world \<Rightarrow> int \<Rightarrow> int \<Rightarrow> bool" where
  "should_process w chat user =
     (if (case ignore_mode_groups w chat of None \<Rightarrow> False | Some b \<Rightarrow> b)
      then (if (case group_user_current_watchme_requests w (watchme_key chat user) of
                  None \<Rightarrow> ''ignore'' | Some v \<Rightarrow> v) \<noteq> ''watch''
            then False else True)
      else (if (case group_user_current_watchme_requests w (watchme_key chat user) of
                  None \<Rightarrow> ''watch'' | Some v \<Rightarrow> v) = ''ignore''
            then False else True))"

text \<open>
  The second part settles \<open>ext\<close>: the syntax the message names, else the guess, else
  the default of the chat (\<open>suppress(KeyError)\<close> keeps \<open>ext\<close> when there is none).
\<close>

definition resolve_ext :: "collaborators \<Rightarrow> config \<Rightarrow> message \<Rightarrow> pystr \<Rightarrow> string option action" where
  "resolve_ext env cfg message text_content =
     (let ext = code_specified_syntax cfg message in
      and_then (log_msg ''receiving code'') (\<lambda>_.
      and_then (if \<not> truthy ext
                then guess_ext env cfg text_content probability_min_default
                else done_with ext) (\<lambda>ext.
      if \<not> truthy ext
      then (\<lambda>w. case group_syntaxes w (chat_id message) of
                   None \<Rightarrow> (Inr ext, w)
                 | Some syntax \<Rightarrow> (Inr (Some syntax), w))
      else done_with ext)))"

text \<open>
  The third part answers: with a settled syntax the images are sent, without one the
  syntax keyboard is shown; the answer is deleted half a minute later by a thread of
  its own, which the model only records.
\<close>

definition answer_snippet :: "collaborators \<Rightarrow> message \<Rightarrow> string option \<Rightarrow> unit action" where
  "answer_snippet env message ext =
     and_then
       (let ask = call (ReplyTo (message_id message) QueryExt (NamedKb ''syntax''))
                       (reply_to env (message_id message) QueryExt) in
        case ext of
          None \<Rightarrow> ask
        | Some e \<Rightarrow>
            if e = [] then ask
            else and_then (call (ReplyTo (message_id message) (QueryExtGuessed e) (minikb ''syntax''))
                             (reply_to env (message_id message) (QueryExtGuessed e))) (\<lambda>kb_msg.
                 and_then (set_snippet_filetype env None (Some message) ext) (\<lambda>_. done_with kb_msg)))
       (\<lambda>kb_msg. call (DeleteAfterDelay kb_msg 30) (Inr ()))"

definition process_snippet :: "collaborators \<Rightarrow> config \<Rightarrow> message \<Rightarrow> pystr \<Rightarrow> unit action" where
  "process_snippet env cfg message text_content =
     and_then (resolve_ext env cfg message text_content) (answer_snippet env message)"

definition intake_snippet_body :: "collaborators \<Rightarrow> config \<Rightarrow> message \<Rightarrow> unit action" where
  "intake_snippet_body env cfg message w =
     (case from_user message of
        None \<Rightarrow> (Inl AttributeError, w)
      | Some user \<Rightarrow>
          if \<not> should_process w (chat_id message) user then (Inr (), w)
          else if chat_type message \<noteq> ''private''
          then (case code_subcontent message of
                  None \<Rightarrow> (Inr (), w)
                | Some text_content \<Rightarrow>
                    if text_content = [] then (Inr (), w)
                    else process_snippet env cfg message text_content w)
          else process_snippet env cfg message (msg_text message) w)"

definition intake_snippet :: "collaborators \<Rightarrow> config \<Rightarrow> message \<Rightarrow> unit action" where
  "intake_snippet env cfg message = retry True (intake_snippet_body env cfg message)"

text \<open>\<open>ignore_group_user\<close> and \<open>watch_group_user\<close>, the commands \<open>/ignoreme\<close> and \<open>/watchme\<close>.\<close>

definition ignore_group_user_body :: "message \<Rightarrow> unit action" where
  "ignore_group_user_body message =
     (case from_user message of
        None \<Rightarrow> raise AttributeError
      | Some user \<Rightarrow>
          and_then (log_msg ''ignoring group user'') (\<lambda>_ w.
            (Inr (), w\<lparr>group_user_current_watchme_requests :=
                          (group_user_current_watchme_requests w)
                            (watchme_key (chat_id message) user \<mapsto> ''ignore'')\<rparr>)))"

definition ignore_group_user :: "message \<Rightarrow> unit action" where
  "ignore_group_user message = retry True (ignore_group_user_body message)"

definition watch_group_user_body :: "message \<Rightarrow> unit action" where
  "watch_group_user_body message =
     (case from_user message of
        None \<Rightarrow> raise AttributeError
      | Some user \<Rightarrow>
          and_then (log_msg ''watching group user'') (\<lambda>_ w.
            (Inr (), w\<lparr>group_user_current_watchme_requests :=
                          (group_user_current_watchme_requests w)
                            (watchme_key (chat_id message) user \<mapsto> ''watch'')\<rparr>)))"

definition watch_group_user :: "message \<Rightarrow> unit action" where
  "watch_group_user message = retry True (watch_group_user_body message)"

text \<open>
  \<open>is_from_group_admin_or_creator\<close>: true in a private chat without asking the
  gateway (\<open>or\<close> does not evaluate its second operand), else the role decides.
\<close>

datatype message_or_query = AMessage message | AQuery callback_query

fun is_from_group_admin_or_creator :: "collaborators \<Rightarrow> message_or_query \<Rightarrow> bool action" where
  "is_from_group_admin_or_creator env (AMessage message) =
     (if chat_type message = ''private'' then done_with True
      else (case from_user message of
              None \<Rightarrow> raise AttributeError
            | Some user \<Rightarrow>
                and_then (call (GetChatMember (chat_id message) user)
                            (get_chat_member env (chat_id message) user)) (\<lambda>status.
                  done_with (status \<in> set [''administrator'', ''creator'']))))"
| "is_from_group_admin_or_creator env (AQuery query) =
     (if chat_type (cq_message query) = ''private'' then done_with True
      else and_then (call (GetChatMember (chat_id (cq_message query)) (cq_from_user query))
                       (get_chat_member env (chat_id (cq_message query)) (cq_from_user query))) (\<lambda>status.
             done_with (status \<in> set [''administrator'', ''creator''])))"

text \<open>
  \<open>begone\<close>, the dismiss button. The \<open>try\<close> block compares the author of the message
  replied to with the one who pressed; the \<open>AttributeError\<close> of a missing
  \<open>reply_to_message\<close> (or a missing author) is the only way into the role check.
\<close>

definition begone_body :: "collaborators \<Rightarrow> callback_query \<Rightarrow> unit action" where
  "begone_body env cb_query =
     and_then
       (case reply_to_message (cq_message cb_query) of
          None \<Rightarrow> is_from_group_admin_or_creator env (AQuery cb_query)
        | Some replied \<Rightarrow>
            (case from_user replied of
               None \<Rightarrow> is_from_group_admin_or_creator env (AQuery cb_query)
             | Some author \<Rightarrow>
                 done_with (if author = cq_from_user cb_query then True else False)))
       (\<lambda>has_permission.
          and_then (log_msg ''Got deletion request'') (\<lambda>_.
            if has_permission
            then call (DeleteMessage (chat_id (cq_message cb_query)) (message_id (cq_message cb_query)))
                   (delete_message env (chat_id (cq_message cb_query)) (message_id (cq_message cb_query)))
            else done_with ()))"

definition begone :: "collaborators \<Rightarrow> callback_query \<Rightarrow> unit action" where
  "begone env cb_query = retry True (begone_body env cb_query)"

section \<open>Reading a trace\<close>

text \<open>The themes rendered and the number of images uploaded, in a trace.\<close>

definition themes_rendered :: "event list \<Rightarrow> string list" where
  "themes_rendered evs = concat (map (\<lambda>ev. case ev of MkPng code ext theme \<Rightarrow> [theme] | _ \<Rightarrow> []) evs)"

definition images_sent :: "event list \<Rightarrow> nat" where
  "images_sent evs =
     length (filter (\<lambda>ev. case ev of SendPhoto c p r \<Rightarrow> True | SendDocument c p r \<Rightarrow> True | _ \<Rightarrow> False) evs)"

definition all_succeed :: "collaborators \<Rightarrow> bool" where
  "all_succeed env =
     ((\<forall>code ext theme. \<not> isl (silicon env code ext theme)) \<and>
      (\<forall>chat. \<not> isl (send_chat_action env chat)) \<and>
      (\<forall>chat path reply. \<not> isl (send_photo env chat path reply)) \<and>
      (\<forall>chat path reply. \<not> isl (send_document env chat path reply)) \<and>
      (\<forall>chat msg kb. \<not> isl (edit_message_reply_markup env chat msg kb)) \<and>
      (\<forall>q. \<not> isl (answer_callback_query env q)))"

text \<open>The texts handed to the classifier in a trace, and the actions that never call it.\<close>

definition classifier_calls :: "event list \<Rightarrow> pystr list" where
  "classifier_calls evs = concat (map (\<lambda>ev. case ev of Probabilities code \<Rightarrow> [code] | _ \<Rightarrow> []) evs)"

definition no_classifier :: "'a action \<Rightarrow> bool" where
  "no_classifier f = (\<forall>w. classifier_calls (trace (snd (f w))) = classifier_calls (trace w))"

text \<open>The author \<open>begone\<close> finds through the reply chain, if there is one.\<close>

definition reply_author :: "callback_query \<Rightarrow> int option" where
  "reply_author q = (case reply_to_message (cq_message q) of None \<Rightarrow> None | Some replied \<Rightarrow> from_user replied)"

section \<open>Example inputs\<close>

text \<open>
  A group chat \<open>-100\<close> with a member \<open>9\<close> and an administrator \<open>5\<close>, a private
  chat with the user \<open>7\<close>, and collaborators that always answer.
\<close>

definition example_world :: "bool option \<Rightarrow> string option \<Rightarrow> world" where
  "example_world mode override =
     \<lparr>group_syntaxes = Map.empty,
      ignore_mode_groups = (case mode of None \<Rightarrow> Map.empty | Some b \<Rightarrow> [-100 \<mapsto> b]),
      group_user_current_watchme_requests =
        (case override of None \<Rightarrow> Map.empty | Some v \<Rightarrow> [watchme_key (-100) 9 \<mapsto> v]),
      trace = []\<rparr>"

definition example_env :: "(string \<times> real) list \<Rightarrow> collaborators" where
  "example_env guesses =
     \<lparr>probabilities = (\<lambda>code. Inr guesses),
      silicon = (\<lambda>code ext theme. Inr (''/tmp/'' @ theme @ ''.png'')),
      st_size = (\<lambda>path. 1000),
      get_chat_member = (\<lambda>chat user. Inr (if user = 5 then ''administrator'' else ''member'')),
      reply_to = (\<lambda>mid r. Inr \<lparr>sent_chat_id = 0, sent_message_id = mid + 1,
                                  sent_content_type = ''text'', sent_file_id = []\<rparr>),
      send_chat_action = (\<lambda>chat. Inr ()),
      send_photo = (\<lambda>chat path mid. Inr \<lparr>sent_chat_id = chat, sent_message_id = mid + 2,
                                  sent_content_type = ''photo'', sent_file_id = ''f1''\<rparr>),
      send_document = (\<lambda>chat path mid. Inr \<lparr>sent_chat_id = chat, sent_message_id = mid + 2,
                                  sent_content_type = ''document'', sent_file_id = ''f2''\<rparr>),
      edit_message_reply_markup = (\<lambda>chat mid kb. Inr ()),
      delete_message = (\<lambda>chat mid. Inr ()),
      answer_callback_query = (\<lambda>q. Inr ())\<rparr>"

definition example_cfg :: config where
  "example_cfg =
     \<lparr>guesslang_syntaxes = [''json'' \<mapsto> ''json'', ''Python'' \<mapsto> ''py''],
      silicon_syntaxes = [str ''python'' \<mapsto> ''py'']\<rparr>"

definition one_word_msg :: message where
  "one_word_msg = Message 11 (-100) ''supergroup'' (Some 9) (str ''try foo() now'')
     [\<lparr>etype = ''code'', offset = 4, elength = 5, language = None\<rparr>] None"

definition tagged_msg :: message where
  "tagged_msg = Message 12 (-100) ''supergroup'' (Some 9) (str ''print(1 + 2)'')
     [\<lparr>etype = ''pre'', offset = 0, elength = 12, language = Some (str ''python'')\<rparr>] None"

definition two_blocks_msg :: message where
  "two_blocks_msg = Message 10 (-100) ''supergroup'' (Some 9) (str ''x = 1 print(x)'')
     [\<lparr>etype = ''pre'', offset = 0, elength = 5, language = None\<rparr>,
      \<lparr>etype = ''pre'', offset = 6, elength = 8, language = Some (str ''python'')\<rparr>] None"

definition private_msg :: message where
  "private_msg = Message 20 7 ''private'' (Some 7) (str ''{ 1 }'') [] None"

text \<open>The world after \<open>/ignoreme\<close> in that private chat.\<close>

definition ignored_private_world :: world where
  "ignored_private_world =
     \<lparr>group_syntaxes = Map.empty,
      ignore_mode_groups = Map.empty,
      group_user_current_watchme_requests = [''7:7'' \<mapsto> ''ignore''],
      trace = [Log ''ignoring group user'']\<rparr>"

text \<open>Collaborators whose renderer fails on the dark theme, or whose classifier raises.\<close>

definition dark_fails_env :: collaborators where
  "dark_fails_env =
     (example_env [])\<lparr>silicon := (\<lambda>code ext theme.
        if theme = ''Coldark-Dark'' then Inl ProcessExecutionError
        else Inr (''/tmp/'' @ theme @ ''.png''))\<rparr>"

definition classifier_down_env :: collaborators where
  "classifier_down_env = (example_env [])\<lparr>probabilities := (\<lambda>code. Inl RuntimeError)\<rparr>"

text \<open>A gateway that refuses photos, and one that refuses documents too.\<close>

definition photo_fails_env :: collaborators where
  "photo_fails_env = (example_env [])\<lparr>send_photo := (\<lambda>chat path reply. Inl ApiException)\<rparr>"

definition upload_fails_env :: collaborators where
  "upload_fails_env = photo_fails_env\<lparr>send_document := (\<lambda>chat path reply. Inl ApiException)\<rparr>"

text \<open>
  A group message that starts with two emoji (U+1F600), in which the sender set
  \<open>and\<close> in bold and marked \<open>x = 1\<close> as code: the offsets are in UTF-16 units.
\<close>

definition emoji_msg :: message where
  "emoji_msg = Message 14 (-100) ''supergroup'' (Some 9)
     ([0x1F600, 0x1F600] @ str ''x = 1 and more'')
     [\<lparr>etype = ''bold'', offset = 10, elength = 3, language = None\<rparr>,
      \<lparr>etype = ''code'', offset = 4, elength = 5, language = None\<rparr>] None"

text \<open>The same message without the emoji.\<close>

definition bold_and_code_msg :: message where
  "bold_and_code_msg = Message 15 (-100) ''supergroup'' (Some 9)
     (str ''x = 1 and more'')
     [\<lparr>etype = ''bold'', offset = 6, elength = 3, language = None\<rparr>,
      \<lparr>etype = ''code'', offset = 0, elength = 5, language = None\<rparr>] None"

text \<open>A group message without entities.\<close>

definition plain_group_msg :: message where
  "plain_group_msg = Message 13 (-100) ''supergroup'' (Some 9) (str ''let me see'') [] None"

text \<open>
  Presses of the dismiss button: in the group by the administrator and by the author,
  on an answer to \<open>tagged_msg\<close>, and by anyone on a message that answers nothing; and
  in the private chat on a message that answers nothing.
\<close>

definition admin_query :: callback_query where
  "admin_query =
     \<lparr>cq_id = 1, cq_from_user = 5,
      cq_message = Message 31 (-100) ''supergroup'' (Some 1000) (str ''Coloring code'') [] (Some tagged_msg),
      cq_ext = []\<rparr>"

definition member_query :: callback_query where
  "member_query =
     \<lparr>cq_id = 2, cq_from_user = 9,
      cq_message = Message 31 (-100) ''supergroup'' (Some 1000) (str ''Coloring code'') [] (Some tagged_msg),
      cq_ext = []\<rparr>"

definition orphan_query :: "int \<Rightarrow> callback_query" where
  "orphan_query user =
     \<lparr>cq_id = 3, cq_from_user = user,
      cq_message = Message 32 (-100) ''supergroup'' (Some 1000) (str ''Coloring code'') [] None,
      cq_ext = []\<rparr>"

definition private_query :: callback_query where
  "private_query =
     \<lparr>cq_id = 4, cq_from_user = 7,
      cq_message = Message 21 7 ''private'' (Some 1000) (str ''Coloring code'') [] None,
      cq_ext = []\<rparr>"

section \<open>Properties\<close>

subsection \<open>Auxiliary facts\<close>

lemmas action_defs = and_then_def call_def done_with_def raise_def log_msg_def

text \<open>A literal read as a \<open>pystr\<close>, character by character.\<close>

lemma str_Nil [simp]: "str [] = []"
  by (simp add: str_def)

lemma str_Cons [simp]: "str (c # cs) = of_char c # str cs"
  by (simp add: str_def)

text \<open>An attempt that does not end in a \<open>ConnectionError\<close> is the only attempt.\<close>

lemma retry_passes:
  "fst (original w) \<noteq> Inl ConnectionError \<Longrightarrow> retry has_logger original w = original w"
  by (cases "original w") (auto simp: retry_def eval_nat_numeral split: sum.splits)

lemma split_from_no_space:
  "\<forall>c \<in> set s. \<not> isspace c \<Longrightarrow> split_from cur s = (if cur @ s = [] then [] else [cur @ s])"
  by (induction s arbitrary: cur) auto

lemma split_no_space: "\<forall>c \<in> set s. \<not> isspace c \<Longrightarrow> length (split s) \<le> 1"
  by (simp add: split_def split_from_no_space)

lemma first_start_find:
  "first_start table code = map_option snd (find (\<lambda>(start, ext). startswith code start) table)"
  by (induction table) auto

lemma simple_guesses_nonempty: "first_start simple_guesses code = Some ext \<Longrightarrow> ext \<noteq> []"
  by (auto simp: simple_guesses_def split: if_splits)

lemma gate_closed:
  "from_user message = Some user \<Longrightarrow> \<not> should_process w (chat_id message) user \<Longrightarrow>
   intake_snippet env cfg message w = (Inr (), w)"
  by (simp add: intake_snippet_def retry_passes intake_snippet_body_def)

lemma code_subcontent_Some:
  "code_subcontent message = Some t \<Longrightarrow> t = code_content message \<and> t \<noteq> [] \<and> code_entities message \<noteq> []
     \<and> 1 < length (split t)"
  by (auto simp: code_subcontent_def split_def split: if_splits)

lemma key_7: "watchme_key 7 7 = ''7:7''"
  by (simp add: watchme_key_def str_int_def digits.simps digit_char_def)

text \<open>Nothing but \<open>guess_ext\<close> calls the classifier.\<close>

lemma classifier_calls_append [simp]:
  "classifier_calls (xs @ ys) = classifier_calls xs @ classifier_calls ys"
  by (simp add: classifier_calls_def)

lemma no_classifier_done [simp]: "no_classifier (done_with a)"
  by (simp add: no_classifier_def done_with_def)

lemma no_classifier_raise [simp]: "no_classifier (raise e)"
  by (simp add: no_classifier_def raise_def)

lemma no_classifier_call:
  "classifier_calls [ev] = [] \<Longrightarrow> no_classifier (call ev answer)"
  by (simp add: no_classifier_def call_def)

lemma no_classifier_log [simp]: "no_classifier (log_msg s)"
  by (simp add: log_msg_def no_classifier_call classifier_calls_def)

lemma no_classifier_and_then:
  "no_classifier f \<Longrightarrow> (\<And>a. no_classifier (g a)) \<Longrightarrow> no_classifier (and_then f g)"
  unfolding no_classifier_def and_then_def
  by (auto split: prod.splits sum.splits) (metis snd_conv)+

lemma no_classifier_retry_loop:
  "no_classifier f \<Longrightarrow> no_classifier (retry_loop n attempt has_logger f last_error)"
proof (induction n arbitrary: attempt last_error)
  case 0
  show ?case by (simp add: no_classifier_def split: option.splits)
next
  case (Suc n)
  show ?case
    unfolding no_classifier_def
  proof
    fix w
    obtain r w' where fw: "f w = (r, w')" by (cases "f w")
    with Suc.prems have t: "classifier_calls (trace w') = classifier_calls (trace w)"
      unfolding no_classifier_def by (metis snd_conv)
    show "classifier_calls (trace (snd (retry_loop (Suc n) attempt has_logger f last_error w)))
            = classifier_calls (trace w)"
    proof (cases r)
      case (Inr a)
      with fw t show ?thesis by simp
    next
      case (Inl e)
      show ?thesis
      proof (cases "e = ConnectionError")
        case False
        with fw t Inl show ?thesis by simp
      next
        case True
        define w'' where "w'' = (if has_logger \<and> attempt > 0 then snd (log_msg ''called retry-able'' w') else w')"
        have "classifier_calls (trace w'') = classifier_calls (trace w')"
          by (simp add: w''_def log_msg_def call_def classifier_calls_def)
        moreover have "classifier_calls (trace (snd (retry_loop n (Suc attempt) has_logger f (Some e) w'')))
                         = classifier_calls (trace w'')"
          using Suc.IH [OF Suc.prems] unfolding no_classifier_def by blast
        ultimately show ?thesis
          using fw t Inl True by (simp add: w''_def)
      qed
    qed
  qed
qed

lemma no_classifier_retry: "no_classifier f \<Longrightarrow> no_classifier (retry has_logger f)"
  by (simp add: retry_def no_classifier_retry_loop)

lemma no_classifier_send_image: "no_classifier (send_image env chat png reply False)"
proof -
  have "no_classifier (send_image_body env chat png reply False)"
    unfolding no_classifier_def send_image_body_def
    by (auto simp: action_defs Let_def classifier_calls_def split: sum.splits prod.splits)
  then show ?thesis
    by (simp add: send_image_def no_classifier_retry)
qed

lemma no_classifier_send_themes:
  "no_classifier (send_themes env snippet text_content ext kb themes)"
proof (induction themes)
  case Nil
  show ?case by (simp add: no_classifier_def done_with_def)
next
  case (Cons theme themes)
  have "send_themes env snippet text_content ext kb (theme # themes) =
     and_then (mk_png env text_content ext theme) (\<lambda>png_path.
     and_then (send_image env (chat_id snippet) png_path (message_id snippet) False) (\<lambda>photo_msg.
     let image_kb = Buttons
           ((if kb \<and> sent_content_type photo_msg = ''photo''
             then [SendToChat (''img '' @ sent_file_id photo_msg)] else [])
            @ [BegoneButton]) in
     and_then (call (EditMessageReplyMarkup (sent_chat_id photo_msg) (sent_message_id photo_msg) image_kb)
                 (edit_message_reply_markup env (sent_chat_id photo_msg) (sent_message_id photo_msg) image_kb)) (\<lambda>_.
     send_themes env snippet text_content ext kb themes)))"
    by (rule ext) simp
  then show ?case
    using Cons.IH
    by (auto simp: Let_def mk_png_def classifier_calls_def
             intro!: no_classifier_and_then no_classifier_call no_classifier_send_image)
qed

lemma no_classifier_set_snippet_filetype:
  "no_classifier (set_snippet_filetype env cb_query snippet ext)"
proof -
  have "no_classifier (set_snippet_filetype_body env cb_query snippet ext)"
    unfolding set_snippet_filetype_body_def
    by (auto simp: Let_def classifier_calls_def simp del: send_themes.simps
             split: option.splits prod.splits
             intro!: no_classifier_and_then no_classifier_call no_classifier_send_themes)
  then show ?thesis
    by (simp add: set_snippet_filetype_def no_classifier_retry)
qed

lemma no_classifier_answer_snippet: "no_classifier (answer_snippet env message ext)"
  unfolding answer_snippet_def
  by (auto simp: Let_def classifier_calls_def split: option.splits
           intro!: no_classifier_and_then no_classifier_call no_classifier_set_snippet_filetype)

text \<open>When every collaborator answers, each theme is rendered once and sent once.\<close>

lemma themes_rendered_append [simp]:
  "themes_rendered (xs @ ys) = themes_rendered xs @ themes_rendered ys"
  by (simp add: themes_rendered_def)

lemma images_sent_append [simp]: "images_sent (xs @ ys) = images_sent xs + images_sent ys"
  by (simp add: images_sent_def)

lemma not_isl_Inr: "\<not> isl r \<Longrightarrow> \<exists>v. r = Inr v"
  by (cases r) auto

lemma send_image_succeeds:
  assumes "all_succeed env"
  shows "\<exists>photo_msg w'. send_image env chat png_path reply_msg_id False w = (Inr photo_msg, w')
           \<and> themes_rendered (trace w') = themes_rendered (trace w)
           \<and> images_sent (trace w') = images_sent (trace w) + 1"
proof -
  from assms obtain photo doc where
    a: "send_chat_action env chat = Inr ()"
    and p: "send_photo env chat png_path reply_msg_id = Inr photo"
    and d: "send_document env chat png_path reply_msg_id = Inr doc"
    unfolding all_succeed_def by (metis not_isl_Inr old.unit.exhaust)
  have "\<exists>photo_msg w'. send_image_body env chat png_path reply_msg_id False w = (Inr photo_msg, w')
           \<and> themes_rendered (trace w') = themes_rendered (trace w)
           \<and> images_sent (trace w') = images_sent (trace w) + 1"
    by (simp add: send_image_body_def action_defs Let_def a p d themes_rendered_def images_sent_def)
  then obtain photo_msg w' where
    b: "send_image_body env chat png_path reply_msg_id False w = (Inr photo_msg, w')"
    and t: "themes_rendered (trace w') = themes_rendered (trace w)"
           "images_sent (trace w') = images_sent (trace w) + 1"
    by blast
  from b have "send_image env chat png_path reply_msg_id False w = (Inr photo_msg, w')"
    by (simp add: send_image_def retry_passes)
  with t show ?thesis by blast
qed

lemma send_themes_succeeds:
  assumes "all_succeed env"
  shows "\<exists>w'. send_themes env snippet text_content ext do_attach_send_kb themes w = (Inr (), w')
           \<and> themes_rendered (trace w') = themes_rendered (trace w) @ themes
           \<and> images_sent (trace w') = images_sent (trace w) + length themes"
proof (induction themes arbitrary: w)
  case Nil
  show ?case by (simp add: done_with_def)
next
  case (Cons theme themes)
  from assms obtain png_path where s: "silicon env text_content ext theme = Inr png_path"
    unfolding all_succeed_def by (metis not_isl_Inr)
  define w1 where "w1 = w\<lparr>trace := trace w @ [MkPng text_content ext theme]\<rparr>"
  obtain photo_msg w2 where
    i: "send_image env (chat_id snippet) png_path (message_id snippet) False w1 = (Inr photo_msg, w2)"
    and t2: "themes_rendered (trace w2) = themes_rendered (trace w1)"
            "images_sent (trace w2) = images_sent (trace w1) + 1"
    using send_image_succeeds [OF assms] by blast
  define kb where "kb = Buttons
           ((if do_attach_send_kb \<and> sent_content_type photo_msg = ''photo''
             then [SendToChat (''img '' @ sent_file_id photo_msg)] else [])
            @ [BegoneButton])"
  define w3 where "w3 = w2\<lparr>trace := trace w2 @
     [EditMessageReplyMarkup (sent_chat_id photo_msg) (sent_message_id photo_msg) kb]\<rparr>"
  from assms have e: "edit_message_reply_markup env (sent_chat_id photo_msg) (sent_message_id photo_msg) kb = Inr ()"
    unfolding all_succeed_def by (metis not_isl_Inr old.unit.exhaust)
  have step: "send_themes env snippet text_content ext do_attach_send_kb (theme # themes) w
        = send_themes env snippet text_content ext do_attach_send_kb themes w3"
    using s i e by (simp add: mk_png_def action_defs Let_def w1_def w3_def kb_def)
  obtain w' where
    r: "send_themes env snippet text_content ext do_attach_send_kb themes w3 = (Inr (), w')"
    and t': "themes_rendered (trace w') = themes_rendered (trace w3) @ themes"
            "images_sent (trace w') = images_sent (trace w3) + length themes"
    using Cons.IH by blast
  have t3: "themes_rendered (trace w3) = themes_rendered (trace w) @ [theme]"
           "images_sent (trace w3) = images_sent (trace w) + 1"
    using t2 by (simp_all add: w3_def w1_def) (simp_all add: themes_rendered_def images_sent_def)
  show ?case
    using step r t' t3 by simp
qed

subsection \<open>The consent gate\<close>

text \<open>
  Claim C1. In \<open>intake_snippet\<close> the decision to go on depends only on the stored mode
  of the chat and the stored override of the user in that chat: in ignore mode (the
  stored flag is true) the snippet goes on exactly when the override is \<open>watch\<close>; in
  watch mode (a false flag, or none) it goes on exactly when the override is not
  \<open>ignore\<close>. No override means stop in ignore mode and go on in watch mode. When the
  decision is to stop the handler returns with nothing done; when it is to go on, the
  code content of a group message is processed.
\<close>

theorem consent_gate_table:
  "should_process w chat user =
     (if ignore_mode_groups w chat = Some True
      then group_user_current_watchme_requests w (watchme_key chat user) = Some ''watch''
      else group_user_current_watchme_requests w (watchme_key chat user) \<noteq> Some ''ignore'')
   \<and> (from_user message = Some user \<and> chat_id message = chat \<and> \<not> should_process w chat user
        \<longrightarrow> intake_snippet env cfg message w = (Inr (), w))
   \<and> (from_user message = Some user \<and> chat_id message = chat \<and> should_process w chat user
        \<and> chat_type message \<noteq> ''private'' \<and> code_subcontent message = Some text_content
        \<longrightarrow> intake_snippet_body env cfg message w = process_snippet env cfg message text_content w)"
proof (intro conjI impI)
  show "should_process w chat user =
     (if ignore_mode_groups w chat = Some True
      then group_user_current_watchme_requests w (watchme_key chat user) = Some ''watch''
      else group_user_current_watchme_requests w (watchme_key chat user) \<noteq> Some ''ignore'')"
    by (auto simp: should_process_def split: option.splits)
next
  assume "from_user message = Some user \<and> chat_id message = chat \<and> \<not> should_process w chat user"
  then show "intake_snippet env cfg message w = (Inr (), w)"
    by (simp add: gate_closed)
next
  assume a: "from_user message = Some user \<and> chat_id message = chat \<and> should_process w chat user
        \<and> chat_type message \<noteq> ''private'' \<and> code_subcontent message = Some text_content"
  then have "text_content \<noteq> []"
    using code_subcontent_Some by blast
  with a show "intake_snippet_body env cfg message w = process_snippet env cfg message text_content w"
    by (simp add: intake_snippet_body_def)
qed

theorem consent_gate_table_witness:
  "should_process (example_world (Some True) None) (-100) 9 = False
   \<and> should_process (example_world (Some True) (Some ''watch'')) (-100) 9 = True
   \<and> should_process (example_world (Some True) (Some ''ignore'')) (-100) 9 = False
   \<and> should_process (example_world None None) (-100) 9 = True
   \<and> should_process (example_world None (Some ''watch'')) (-100) 9 = True
   \<and> should_process (example_world None (Some ''ignore'')) (-100) 9 = False
   \<and> should_process (example_world (Some False) None) (-100) 9 = True
   \<and> should_process (example_world (Some False) (Some ''watch'')) (-100) 9 = True
   \<and> should_process (example_world (Some False) (Some ''ignore'')) (-100) 9 = False
   \<and> intake_snippet (example_env []) example_cfg tagged_msg (example_world (Some True) None)
       = (Inr (), example_world (Some True) None)
   \<and> intake_snippet_body (example_env []) example_cfg tagged_msg (example_world (Some True) (Some ''watch''))
       = process_snippet (example_env []) example_cfg tagged_msg (str ''print(1 + 2)'')
           (example_world (Some True) (Some ''watch''))"
proof -
  note t = consent_gate_table [where chat = "-100" and user = 9 and message = tagged_msg
             and env = "example_env []" and cfg = example_cfg and text_content = "(str ''print(1 + 2)'')"]
  have m: "from_user tagged_msg = Some 9" "chat_id tagged_msg = -100"
          "chat_type tagged_msg \<noteq> ''private''"
    by (simp_all add: tagged_msg_def)
  have c: "code_subcontent tagged_msg = Some (str ''print(1 + 2)'')"
    by (simp add: code_subcontent_def code_content_def code_entities_def tagged_msg_def
          split_def isspace_def)
  have k: "group_user_current_watchme_requests (example_world mode None) key = None"
          "group_user_current_watchme_requests (example_world mode (Some v)) (watchme_key (-100) 9) = Some v"
          "ignore_mode_groups (example_world None override) (-100) = None"
          "ignore_mode_groups (example_world (Some b) override) (-100) = Some b"
    for mode override key v b
    by (simp_all add: example_world_def)
  show ?thesis
    using t [of "example_world (Some True) None"]
          t [of "example_world (Some True) (Some ''watch'')"]
          t [of "example_world (Some True) (Some ''ignore'')"]
          t [of "example_world None None"]
          t [of "example_world None (Some ''watch'')"]
          t [of "example_world None (Some ''ignore'')"]
          t [of "example_world (Some False) None"]
          t [of "example_world (Some False) (Some ''watch'')"]
          t [of "example_world (Some False) (Some ''ignore'')"]
          m c k
    by simp
qed

text \<open>
  Claim C6, as the code has it. A private chat passes through the same gate as a group
  chat: the chat type is not read before the gate, so the snippet is processed (with
  the whole text of the message) exactly when \<open>should_process\<close> holds, which it does
  when nothing is stored for the chat and the user.
\<close>

theorem private_chat_gate:
  assumes "chat_type message = ''private''" and "from_user message = Some user"
  shows "intake_snippet_body env cfg message w =
           (if should_process w (chat_id message) user
            then process_snippet env cfg message (msg_text message) w
            else (Inr (), w))
         \<and> (ignore_mode_groups w (chat_id message) = None
              \<and> group_user_current_watchme_requests w (watchme_key (chat_id message) user) = None
            \<longrightarrow> should_process w (chat_id message) user)"
  using assms by (simp add: intake_snippet_body_def should_process_def)

theorem private_chat_gate_witness:
  "intake_snippet_body (example_env [(''json'', 9 / 10)]) example_cfg private_msg (example_world None None)
     = process_snippet (example_env [(''json'', 9 / 10)]) example_cfg private_msg (str ''{ 1 }'')
         (example_world None None)
   \<and> intake_snippet_body (example_env [(''json'', 9 / 10)]) example_cfg private_msg ignored_private_world
     = (Inr (), ignored_private_world)"
proof -
  have p: "chat_type private_msg = ''private''" and u: "from_user private_msg = Some 7"
    by (simp_all add: private_msg_def)
  show ?thesis
    using private_chat_gate [OF p u, of "example_env [(''json'', 9 / 10)]" example_cfg "example_world None None"]
          private_chat_gate [OF p u, of "example_env [(''json'', 9 / 10)]" example_cfg ignored_private_world]
    by (simp add: should_process_def example_world_def ignored_private_world_def private_msg_def key_7)
qed

text \<open>
  After \<open>/ignoreme\<close> in a private chat, the next snippet of that chat is dropped
  without an answer.
\<close>

theorem private_chat_ignored_counterexample:
  "chat_type private_msg = ''private''
   \<and> ignore_group_user private_msg (example_world None None) = (Inr (), ignored_private_world)
   \<and> intake_snippet (example_env [(''json'', 9 / 10)]) example_cfg private_msg ignored_private_world
      = (Inr (), ignored_private_world)"
  by (simp add: private_msg_def ignore_group_user_def ignore_group_user_body_def retry_passes
        action_defs example_world_def ignored_private_world_def key_7 intake_snippet_def
        intake_snippet_body_def should_process_def)

subsection \<open>Content extraction in a group chat\<close>

text \<open>
  The extracted content, written out: the slices \<open>text[offset : offset + length]\<close> of
  the entities of type \<open>code\<close> or \<open>pre\<close>, in their order, with a blank line between.
\<close>

lemma code_content_slices:
  "code_content message =
     join [0x0A, 0x0A]
       (map (\<lambda>e. take (elength e) (drop (offset e) (msg_text message)))
          (filter (\<lambda>e. etype e = ''code'' \<or> etype e = ''pre'') (entities message)))"
  by (simp add: code_content_def code_entities_def)

text \<open>
  In a chat that is not private, a message none of whose entities is of type \<open>code\<close>
  or \<open>pre\<close>, or whose slices hold no white space (one word, or nothing), leaves
  \<open>intake_snippet\<close> with the world untouched: no classifier call, no reply.
\<close>

lemma group_snippet_rejected:
  assumes "chat_type message \<noteq> ''private''"
    and "(\<forall>e \<in> set (entities message). etype e \<noteq> ''code'' \<and> etype e \<noteq> ''pre'')
         \<or> (\<forall>c \<in> set (join [0x0A, 0x0A]
                 (map (\<lambda>e. take (elength e) (drop (offset e) (msg_text message)))
                    (filter (\<lambda>e. etype e = ''code'' \<or> etype e = ''pre'') (entities message)))).
               \<not> isspace c)"
  shows "snd (intake_snippet env cfg message w) = w"
proof -
  have none: "code_subcontent message = None"
  proof (cases "code_entities message = []")
    case True
    then show ?thesis by (simp add: code_subcontent_def)
  next
    case False
    then have "\<not> (\<forall>e \<in> set (entities message). etype e \<noteq> ''code'' \<and> etype e \<noteq> ''pre'')"
      by (auto simp: code_entities_def filter_empty_conv)
    with assms(2) have "\<forall>c \<in> set (code_content message). \<not> isspace c"
      by (simp add: code_content_slices)
    then have "length (split (code_content message)) \<le> 1"
      by (rule split_no_space)
    then show ?thesis by (simp add: code_subcontent_def)
  qed
  have "snd (intake_snippet_body env cfg message w) = w
        \<and> fst (intake_snippet_body env cfg message w) \<noteq> Inl ConnectionError"
    using assms(1) none by (simp add: intake_snippet_body_def split: option.splits)
  then show ?thesis
    by (simp add: intake_snippet_def retry_passes)
qed

text \<open>What goes on to be processed is never anything but those slices.\<close>

lemma group_snippet_processed:
  assumes "chat_type message \<noteq> ''private''" and "from_user message = Some user"
  shows "intake_snippet_body env cfg message w =
           (if should_process w (chat_id message) user \<and> code_subcontent message \<noteq> None
            then process_snippet env cfg message
                   (join [0x0A, 0x0A]
                      (map (\<lambda>e. take (elength e) (drop (offset e) (msg_text message)))
                         (filter (\<lambda>e. etype e = ''code'' \<or> etype e = ''pre'') (entities message)))) w
            else (Inr (), w))"
  using assms
  by (auto simp: intake_snippet_body_def code_content_slices [symmetric]
           dest: code_subcontent_Some split: option.splits)

text \<open>
  A slice is the span the entity marks when every character of the text takes one
  UTF-16 unit, that is, when the text stays below U+10000.
\<close>

lemma utf16_slice_below_10000:
  "\<forall>c \<in> set cs. c < 0x10000 \<Longrightarrow>
   utf16_slice pos lo hi cs = take (hi - max lo pos) (drop (lo - pos) cs)"
proof (induction cs arbitrary: pos)
  case Nil
  show ?case by simp
next
  case (Cons c cs)
  then have u: "utf16_units c = 1" and rest: "\<forall>c \<in> set cs. c < 0x10000"
    by (simp_all add: utf16_units_def)
  show ?case
  proof (cases "pos < lo")
    case True
    then have "lo - pos = Suc (lo - Suc pos)" and "max lo (Suc pos) = lo" and "max lo pos = lo"
      by simp_all
    with True Cons.IH [OF rest, of "Suc pos"] u show ?thesis
      by simp
  next
    case False
    then have "lo - pos = 0" and "lo - Suc pos = 0" and "max lo pos = pos" and "max lo (Suc pos) = Suc pos"
      by simp_all
    with False Cons.IH [OF rest, of "Suc pos"] u show ?thesis
      by (cases "pos < hi") (simp_all add: take_Cons')
  qed
qed

lemma slice_is_marked_span:
  "\<forall>c \<in> set (msg_text message). c < 0x10000 \<Longrightarrow>
   take (elength e) (drop (offset e) (msg_text message)) = marked_span message e"
  by (simp add: marked_span_def utf16_slice_below_10000)

text \<open>
  Three group messages: one word marked as code, no entity at all, and a bold and a
  code entity of which only the code is taken, where it is the marked span.
\<close>

lemma group_snippet_examples:
  "snd (intake_snippet (example_env []) example_cfg one_word_msg (example_world None None))
       = example_world None None
   \<and> snd (intake_snippet (example_env []) example_cfg plain_group_msg (example_world None None))
       = example_world None None
   \<and> code_subcontent bold_and_code_msg = Some (str ''x = 1'')
   \<and> map (marked_span bold_and_code_msg) (code_entities bold_and_code_msg) = [str ''x = 1'']
   \<and> intake_snippet_body (example_env []) example_cfg bold_and_code_msg (example_world None None)
       = process_snippet (example_env []) example_cfg bold_and_code_msg (str ''x = 1'')
           (example_world None None)"
proof -
  have g1: "chat_type one_word_msg \<noteq> ''private''" and g2: "chat_type bold_and_code_msg \<noteq> ''private''"
    and g3: "chat_type plain_group_msg \<noteq> ''private''"
    by (simp_all add: one_word_msg_def bold_and_code_msg_def plain_group_msg_def)
  have a: "snd (intake_snippet (example_env []) example_cfg one_word_msg (example_world None None))
       = example_world None None"
    by (rule group_snippet_rejected [OF g1]) (simp add: one_word_msg_def isspace_def)
  have b: "snd (intake_snippet (example_env []) example_cfg plain_group_msg (example_world None None))
       = example_world None None"
    by (rule group_snippet_rejected [OF g3]) (simp add: plain_group_msg_def)
  have c: "code_subcontent bold_and_code_msg = Some (str ''x = 1'')"
    by (simp add: code_subcontent_def code_content_def code_entities_def bold_and_code_msg_def
          split_def isspace_def)
  have d: "map (marked_span bold_and_code_msg) (code_entities bold_and_code_msg) = [str ''x = 1'']"
    by (simp add: marked_span_def code_entities_def bold_and_code_msg_def utf16_units_def)
  have gate: "should_process (example_world None None) (chat_id bold_and_code_msg) 9"
    by (simp add: should_process_def example_world_def)
  have u: "from_user bold_and_code_msg = Some 9"
    by (simp add: bold_and_code_msg_def)
  have e: "intake_snippet_body (example_env []) example_cfg bold_and_code_msg (example_world None None)
       = process_snippet (example_env []) example_cfg bold_and_code_msg (str ''x = 1'')
           (example_world None None)"
    using group_snippet_processed [OF g2 u, of "example_env []" example_cfg "example_world None None"]
          c gate code_content_slices [of bold_and_code_msg]
    by (simp add: code_subcontent_def split: if_splits)
  from a b c d e show ?thesis
    by simp
qed

text \<open>
  Claim C7 asks that in a group chat only the spans marked as code are extracted. The
  bot slices the text by code point at offsets that count UTF-16 units, so after a
  character from U+10000 on the slice slides to the right of the span. In \<open>emoji_msg\<close>
  the sender marked \<open>x = 1\<close>; the bot extracts \<open>= 1 a\<close>, which takes in a letter of
  the prose after the span, finds more than one word in it and processes it.
\<close>

theorem emoji_shifts_code_slice:
  "chat_type emoji_msg \<noteq> ''private''
   \<and> code_entities emoji_msg = [\<lparr>etype = ''code'', offset = 4, elength = 5, language = None\<rparr>]
   \<and> map (marked_span emoji_msg) (code_entities emoji_msg) = [str ''x = 1'']
   \<and> code_subcontent emoji_msg = Some (str ''= 1 a'')
   \<and> intake_snippet_body (example_env []) example_cfg emoji_msg (example_world None None)
       = process_snippet (example_env []) example_cfg emoji_msg (str ''= 1 a'')
           (example_world None None)"
proof -
  have e: "code_entities emoji_msg = [\<lparr>etype = ''code'', offset = 4, elength = 5, language = None\<rparr>]"
    by (simp add: code_entities_def emoji_msg_def)
  have m: "map (marked_span emoji_msg) (code_entities emoji_msg) = [str ''x = 1'']"
    by (simp add: e marked_span_def utf16_units_def) (simp add: emoji_msg_def utf16_units_def)
  have c: "code_content emoji_msg = str ''= 1 a''"
    by (simp add: code_content_def e) (simp add: emoji_msg_def)
  have s: "code_subcontent emoji_msg = Some (str ''= 1 a'')"
    by (simp add: code_subcontent_def c e split_def isspace_def) (simp add: emoji_msg_def)
  have g: "should_process (example_world None None) (-100) 9"
    by (simp add: should_process_def example_world_def)
  have b: "intake_snippet_body (example_env []) example_cfg emoji_msg (example_world None None)
       = process_snippet (example_env []) example_cfg emoji_msg (str ''= 1 a'')
           (example_world None None)"
    using s g by (simp add: intake_snippet_body_def) (simp add: emoji_msg_def)
  have t: "chat_type emoji_msg \<noteq> ''private''"
    by (simp add: emoji_msg_def)
  from t e m s b show ?thesis
    by simp
qed

subsection \<open>Settling the syntax\<close>

text \<open>
  Claim C2, as the code has it. When the first \<open>pre\<close> entity of the message has a
  language that is not empty and \<open>silicon_syntaxes\<close> maps it to a syntax that is not
  empty, \<open>ext\<close> is settled to that syntax after the log line alone, and the whole
  handler adds no classifier call to the trace.
\<close>

theorem explicit_markup_first_pre:
  assumes "filter (\<lambda>e. etype e = ''pre'') (entities message) = e0 # others"
    and "language e0 = Some lang" and "lang \<noteq> []"
    and "silicon_syntaxes cfg lang = Some ext" and "ext \<noteq> []"
  shows "resolve_ext env cfg message text_content w
           = (Inr (Some ext), w\<lparr>trace := trace w @ [Log ''receiving code'']\<rparr>)
         \<and> classifier_calls (trace (snd (intake_snippet env cfg message w)))
           = classifier_calls (trace w)"
proof -
  from assms(1) have "entities message \<noteq> []" by auto
  with assms have "code_specified_syntax cfg message = Some ext"
    by (simp add: code_specified_syntax_def)
  with assms(5) have r: "resolve_ext env cfg message t v
           = (Inr (Some ext), v\<lparr>trace := trace v @ [Log ''receiving code'']\<rparr>)" for t v
    by (simp add: resolve_ext_def action_defs)
  then have "no_classifier (resolve_ext env cfg message t)" for t
    by (simp add: no_classifier_def classifier_calls_def)
  then have p: "no_classifier (process_snippet env cfg message t)" for t
    unfolding process_snippet_def
    by (intro no_classifier_and_then no_classifier_answer_snippet)
  have "no_classifier (intake_snippet_body env cfg message)"
    unfolding no_classifier_def
  proof
    fix v
    show "classifier_calls (trace (snd (intake_snippet_body env cfg message v)))
            = classifier_calls (trace v)"
      using p by (simp add: intake_snippet_body_def no_classifier_def split: option.splits)
  qed
  then have "no_classifier (intake_snippet env cfg message)"
    by (simp add: intake_snippet_def no_classifier_retry)
  with r show ?thesis
    by (simp add: no_classifier_def)
qed

theorem explicit_markup_first_pre_witness:
  "resolve_ext (example_env [(''json'', 9 / 10)]) example_cfg tagged_msg (str ''print(1 + 2)'')
     (example_world None None)
   = (Inr (Some ''py''), (example_world None None)\<lparr>trace := [Log ''receiving code'']\<rparr>)
   \<and> classifier_calls (trace (snd (intake_snippet (example_env [(''json'', 9 / 10)]) example_cfg
        tagged_msg (example_world None None)))) = []"
  using explicit_markup_first_pre [of tagged_msg
          "\<lparr>etype = ''pre'', offset = 0, elength = 12, language = Some (str ''python'')\<rparr>" "[]"
          "str ''python''" example_cfg "''py''" "example_env [(''json'', 9 / 10)]" "(str ''print(1 + 2)'')"
          "example_world None None"]
  by (simp add: tagged_msg_def example_cfg_def example_world_def classifier_calls_def)

text \<open>
  A message with two \<open>pre\<close> entities, the second one tagged \<open>python\<close>: the tag is not
  read, the classifier is called and its guess is taken.
\<close>

theorem explicit_markup_counterexample:
  "entities two_blocks_msg ! 1 = \<lparr>etype = ''pre'', offset = 6, elength = 8, language = Some (str ''python'')\<rparr>
   \<and> silicon_syntaxes example_cfg (str ''python'') = Some ''py''
   \<and> resolve_ext (example_env [(''json'', 9 / 10)]) example_cfg two_blocks_msg
        (code_content two_blocks_msg) (example_world None None)
      = (Inr (Some ''json''),
         (example_world None None)\<lparr>trace :=
            [Log ''receiving code'', Probabilities (code_content two_blocks_msg), Log ''guessed syntax'']\<rparr>)"
  by (simp add: two_blocks_msg_def example_cfg_def resolve_ext_def code_specified_syntax_def
        guess_ext_def action_defs example_env_def example_world_def probability_min_default_def)

text \<open>
  Claim C3, as the code has it. Without a syntax named by the message: a top guess at
  or above \<open>0.12\<close> whose label the table maps to a syntax that is not empty settles
  \<open>ext\<close> to it; below \<open>0.12\<close> the label plays no part, and \<open>ext\<close> is what the first
  matching prefix gives or else the default of the chat (which may be the syntax the
  label maps to).
\<close>

theorem classifier_threshold:
  assumes "\<not> truthy (code_specified_syntax cfg message)"
    and "probabilities env text_content = Inr ((label, probability) # others)"
  shows "(probability \<ge> probability_min_default \<and> guesslang_syntaxes cfg label = Some ext \<and> ext \<noteq> []
            \<longrightarrow> fst (resolve_ext env cfg message text_content w) = Inr (Some ext))
         \<and> (probability < probability_min_default
            \<longrightarrow> fst (resolve_ext env cfg message text_content w)
                = Inr (case first_start simple_guesses text_content of
                         Some ext' \<Rightarrow> Some ext'
                       | None \<Rightarrow> (case group_syntaxes w (chat_id message) of
                                    Some syntax \<Rightarrow> Some syntax
                                  | None \<Rightarrow> None)))"
  using assms
  by (auto simp: resolve_ext_def guess_ext_def action_defs dest: simple_guesses_nonempty
           split: option.splits)

theorem classifier_threshold_witness:
  "fst (resolve_ext (example_env [(''Python'', 9 / 10)]) example_cfg private_msg (str ''{ 1 }'')
          (example_world None None)) = Inr (Some ''py'')
   \<and> fst (resolve_ext (example_env [(''Python'', 5 / 100)]) example_cfg private_msg (str ''{ 1 }'')
          (example_world None None)) = Inr (Some ''json'')"
proof -
  have ns: "\<not> truthy (code_specified_syntax example_cfg private_msg)"
    by (simp add: code_specified_syntax_def private_msg_def)
  have hi: "probabilities (example_env [(''Python'', 9 / 10)]) (str ''{ 1 }'') = Inr ((''Python'', 9 / 10) # [])"
    and lo: "probabilities (example_env [(''Python'', 5 / 100)]) (str ''{ 1 }'') = Inr ((''Python'', 5 / 100) # [])"
    by (simp_all add: example_env_def)
  have fs: "first_start simple_guesses (str ''{ 1 }'') = Some ''json''"
    by (simp add: simple_guesses_def startswith_def)
  show ?thesis
    using classifier_threshold [OF ns hi, of "''py''" "example_world None None"]
          classifier_threshold [OF ns lo, of "''py''" "example_world None None"] fs
    by (simp add: probability_min_default_def example_cfg_def)
qed

theorem classifier_threshold_counterexample:
  "probabilities (example_env [(''json'', 5 / 100)]) (str ''{ 1 }'') = Inr [(''json'', 5 / 100)]
   \<and> 5 / 100 < probability_min_default
   \<and> guesslang_syntaxes example_cfg ''json'' = Some ''json''
   \<and> fst (resolve_ext (example_env [(''json'', 5 / 100)]) example_cfg private_msg (str ''{ 1 }'')
          (example_world None None)) = Inr (Some ''json'')"
  by (simp add: example_env_def example_cfg_def probability_min_default_def resolve_ext_def
        code_specified_syntax_def private_msg_def guess_ext_def action_defs simple_guesses_def
        startswith_def)

text \<open>
  Claim C4, as the code has it. Without a syntax named by the message: when the top
  guess is below \<open>0.12\<close>, mapped or not, and the text starts with a prefix of the
  table, \<open>ext\<close> is the syntax of the first such prefix; when the classifier raises,
  the exception leaves \<open>resolve_ext\<close> right after the call.
\<close>

theorem heuristic_after_low_confidence:
  assumes "\<not> truthy (code_specified_syntax cfg message)"
  shows "(\<forall>label probability others start ext.
            probabilities env text_content = Inr ((label, probability) # others)
            \<and> probability < probability_min_default
            \<and> find (\<lambda>(start, ext). startswith text_content start) simple_guesses = Some (start, ext)
            \<longrightarrow> fst (resolve_ext env cfg message text_content w) = Inr (Some ext))
         \<and> (\<forall>e. probabilities env text_content = Inl e
            \<longrightarrow> resolve_ext env cfg message text_content w
                = (Inl e, w\<lparr>trace := trace w @ [Log ''receiving code'', Probabilities text_content]\<rparr>))"
proof (intro conjI allI impI)
  fix label probability others start ext
  assume a: "probabilities env text_content = Inr ((label, probability) # others)
            \<and> probability < probability_min_default
            \<and> find (\<lambda>(start, ext). startswith text_content start) simple_guesses = Some (start, ext)"
  then have fs: "first_start simple_guesses text_content = Some ext"
    by (simp add: first_start_find)
  then have "ext \<noteq> []" by (rule simple_guesses_nonempty)
  with assms a fs show "fst (resolve_ext env cfg message text_content w) = Inr (Some ext)"
    by (simp add: resolve_ext_def guess_ext_def action_defs)
next
  fix e
  assume "probabilities env text_content = Inl e"
  with assms show "resolve_ext env cfg message text_content w
                = (Inl e, w\<lparr>trace := trace w @ [Log ''receiving code'', Probabilities text_content]\<rparr>)"
    by (simp add: resolve_ext_def guess_ext_def action_defs)
qed

theorem heuristic_after_low_confidence_witness:
  "fst (resolve_ext (example_env [(''Cobol'', 5 / 100)]) example_cfg private_msg (str ''[[servers]]'')
          (example_world None None)) = Inr (Some ''toml'')
   \<and> resolve_ext classifier_down_env example_cfg private_msg (str ''[[servers]]'') (example_world None None)
     = (Inl RuntimeError, (example_world None None)\<lparr>trace :=
          [Log ''receiving code'', Probabilities (str ''[[servers]]'')]\<rparr>)"
proof -
  have ns: "\<not> truthy (code_specified_syntax example_cfg private_msg)"
    by (simp add: code_specified_syntax_def private_msg_def)
  have lo: "probabilities (example_env [(''Cobol'', 5 / 100)]) (str ''[[servers]]'') = Inr ((''Cobol'', 5 / 100) # [])"
    by (simp add: example_env_def)
  have p: "(5 / 100 :: real) < probability_min_default"
    by (simp add: probability_min_default_def)
  have f: "find (\<lambda>(start, ext). startswith (str ''[[servers]]'') start) simple_guesses = Some (str ''[['', ''toml'')"
    by (simp add: simple_guesses_def startswith_def)
  have d: "probabilities classifier_down_env (str ''[[servers]]'') = Inl RuntimeError"
    by (simp add: classifier_down_env_def)
  have a: "fst (resolve_ext (example_env [(''Cobol'', 5 / 100)]) example_cfg private_msg (str ''[[servers]]'')
          (example_world None None)) = Inr (Some ''toml'')"
    using heuristic_after_low_confidence [OF ns, of "example_env [(''Cobol'', 5 / 100)]" "(str ''[[servers]]'')"
            "example_world None None"] lo p f
    by blast
  have b: "resolve_ext classifier_down_env example_cfg private_msg (str ''[[servers]]'') (example_world None None)
     = (Inl RuntimeError, (example_world None None)\<lparr>trace := trace (example_world None None) @
          [Log ''receiving code'', Probabilities (str ''[[servers]]'')]\<rparr>)"
    using heuristic_after_low_confidence [OF ns, of classifier_down_env "(str ''[[servers]]'')"
            "example_world None None"] d
    by blast
  from a b show ?thesis
    by (simp add: example_world_def)
qed

theorem classifier_failure_counterexample:
  "probabilities classifier_down_env (str ''{ 1 }'') = Inl RuntimeError
   \<and> startswith (str ''{ 1 }'') (str ''{'')
   \<and> intake_snippet classifier_down_env example_cfg private_msg (example_world None None)
     = (Inl RuntimeError, (example_world None None)\<lparr>trace :=
          [Log ''receiving code'', Probabilities (str ''{ 1 }'')]\<rparr>)"
proof -
  have "intake_snippet_body classifier_down_env example_cfg private_msg (example_world None None)
     = (Inl RuntimeError, (example_world None None)\<lparr>trace :=
          [Log ''receiving code'', Probabilities (str ''{ 1 }'')]\<rparr>)"
    by (simp add: intake_snippet_body_def private_msg_def should_process_def example_world_def
          process_snippet_def resolve_ext_def code_specified_syntax_def guess_ext_def action_defs
          classifier_down_env_def)
  then show ?thesis
    by (simp add: intake_snippet_def retry_passes classifier_down_env_def startswith_def)
qed

text \<open>
  A top guess at or above the threshold whose label is not in the table ends
  \<open>guess_ext\<close> with \<open>None\<close>: the prefixes are not tried, the default of the chat is.
\<close>

lemma unmapped_label_skips_prefixes:
  assumes "\<not> truthy (code_specified_syntax cfg message)"
    and "probabilities env text_content = Inr ((label, probability) # others)"
    and "probability \<ge> probability_min_default"
    and "guesslang_syntaxes cfg label = None"
  shows "resolve_ext env cfg message text_content w
           = (Inr (group_syntaxes w (chat_id message)),
              w\<lparr>trace := trace w @ [Log ''receiving code'', Probabilities text_content,
                                      Log ''guessed syntax'']\<rparr>)"
  using assms
  by (simp add: resolve_ext_def guess_ext_def action_defs split: option.splits)

text \<open>
  Claim C5. For the text \<open><?php echo 1;\<close> and a top guess below the threshold,
  \<open>guess_ext\<close> returns \<open>php\<close>, the syntax of the earlier prefix, although the text
  starts with the later prefix \<open><\<close> of \<open>xml\<close> as well.
\<close>

theorem php_before_xml:
  assumes "probabilities env (str ''<?php echo 1;'') = Inr ((label, probability) # others)"
    and "probability < probability_min"
  shows "startswith (str ''<?php echo 1;'') (str ''<'')
         \<and> fst (guess_ext env cfg (str ''<?php echo 1;'') probability_min w) = Inr (Some ''php'')"
  using assms
  by (simp add: guess_ext_def action_defs simple_guesses_def startswith_def)

theorem php_before_xml_witness:
  "startswith (str ''<?php echo 1;'') (str ''<'')
   \<and> fst (guess_ext (example_env [(''json'', 5 / 100)]) example_cfg (str ''<?php echo 1;'')
           probability_min_default (example_world None None)) = Inr (Some ''php'')"
proof -
  have a: "probabilities (example_env [(''json'', 5 / 100)]) (str ''<?php echo 1;'') = Inr ((''json'', 5 / 100) # [])"
    by (simp add: example_env_def)
  have b: "(5 / 100 :: real) < probability_min_default"
    by (simp add: probability_min_default_def)
  show ?thesis
    using php_before_xml [OF a b] by simp
qed

subsection \<open>Dismissing a message\<close>

text \<open>
  Claim C9, as the code has it. When the message replied to has an author, \<open>begone\<close>
  asks for the deletion exactly when the one who pressed is that author, and the role
  is not looked up. Without a reply chain (or without its author) the role check
  decides: always in a private chat, else exactly for an administrator or the creator.
  (The deletion itself is taken not to end in a \<open>ConnectionError\<close>, which would start
  the handler again.)
\<close>

theorem begone_permission:
  assumes "delete_message env (chat_id (cq_message q)) (message_id (cq_message q)) \<noteq> Inl ConnectionError"
  shows "(\<forall>author.
            reply_author q = Some author \<longrightarrow>
            begone env q w =
              (if author = cq_from_user q
               then (delete_message env (chat_id (cq_message q)) (message_id (cq_message q)),
                     w\<lparr>trace := trace w @ [Log ''Got deletion request'',
                          DeleteMessage (chat_id (cq_message q)) (message_id (cq_message q))]\<rparr>)
               else (Inr (), w\<lparr>trace := trace w @ [Log ''Got deletion request'']\<rparr>)))
       \<and> (reply_author q = None \<and> chat_type (cq_message q) = ''private'' \<longrightarrow>
            begone env q w =
              (delete_message env (chat_id (cq_message q)) (message_id (cq_message q)),
               w\<lparr>trace := trace w @ [Log ''Got deletion request'',
                    DeleteMessage (chat_id (cq_message q)) (message_id (cq_message q))]\<rparr>))
       \<and> (\<forall>status.
            reply_author q = None \<and> chat_type (cq_message q) \<noteq> ''private''
            \<and> get_chat_member env (chat_id (cq_message q)) (cq_from_user q) = Inr status \<longrightarrow>
            begone env q w =
              (if status = ''administrator'' \<or> status = ''creator''
               then (delete_message env (chat_id (cq_message q)) (message_id (cq_message q)),
                     w\<lparr>trace := trace w @ [GetChatMember (chat_id (cq_message q)) (cq_from_user q),
                          Log ''Got deletion request'',
                          DeleteMessage (chat_id (cq_message q)) (message_id (cq_message q))]\<rparr>)
               else (Inr (), w\<lparr>trace := trace w @ [GetChatMember (chat_id (cq_message q)) (cq_from_user q),
                          Log ''Got deletion request'']\<rparr>)))"
proof (intro conjI allI impI)
  fix author
  assume "reply_author q = Some author"
  then have b: "begone_body env q w =
              (if author = cq_from_user q
               then (delete_message env (chat_id (cq_message q)) (message_id (cq_message q)),
                     w\<lparr>trace := trace w @ [Log ''Got deletion request'',
                          DeleteMessage (chat_id (cq_message q)) (message_id (cq_message q))]\<rparr>)
               else (Inr (), w\<lparr>trace := trace w @ [Log ''Got deletion request'']\<rparr>))"
    by (auto simp: begone_body_def action_defs reply_author_def split: option.splits)
  with assms have "fst (begone_body env q w) \<noteq> Inl ConnectionError"
    by simp
  then have "begone env q w = begone_body env q w"
    unfolding begone_def by (rule retry_passes)
  with b show "begone env q w =
              (if author = cq_from_user q
               then (delete_message env (chat_id (cq_message q)) (message_id (cq_message q)),
                     w\<lparr>trace := trace w @ [Log ''Got deletion request'',
                          DeleteMessage (chat_id (cq_message q)) (message_id (cq_message q))]\<rparr>)
               else (Inr (), w\<lparr>trace := trace w @ [Log ''Got deletion request'']\<rparr>))"
    by simp
next
  assume "reply_author q = None \<and> chat_type (cq_message q) = ''private''"
  then have b: "begone_body env q w =
              (delete_message env (chat_id (cq_message q)) (message_id (cq_message q)),
               w\<lparr>trace := trace w @ [Log ''Got deletion request'',
                    DeleteMessage (chat_id (cq_message q)) (message_id (cq_message q))]\<rparr>)"
    by (auto simp: begone_body_def action_defs reply_author_def split: option.splits)
  with assms have "fst (begone_body env q w) \<noteq> Inl ConnectionError"
    by simp
  then have "begone env q w = begone_body env q w"
    unfolding begone_def by (rule retry_passes)
  with b show "begone env q w =
              (delete_message env (chat_id (cq_message q)) (message_id (cq_message q)),
               w\<lparr>trace := trace w @ [Log ''Got deletion request'',
                    DeleteMessage (chat_id (cq_message q)) (message_id (cq_message q))]\<rparr>)"
    by simp
next
  fix status
  assume "reply_author q = None \<and> chat_type (cq_message q) \<noteq> ''private''
            \<and> get_chat_member env (chat_id (cq_message q)) (cq_from_user q) = Inr status"
  then have b: "begone_body env q w =
              (if status = ''administrator'' \<or> status = ''creator''
               then (delete_message env (chat_id (cq_message q)) (message_id (cq_message q)),
                     w\<lparr>trace := trace w @ [GetChatMember (chat_id (cq_message q)) (cq_from_user q),
                          Log ''Got deletion request'',
                          DeleteMessage (chat_id (cq_message q)) (message_id (cq_message q))]\<rparr>)
               else (Inr (), w\<lparr>trace := trace w @ [GetChatMember (chat_id (cq_message q)) (cq_from_user q),
                          Log ''Got deletion request'']\<rparr>))"
    by (auto simp: begone_body_def action_defs reply_author_def split: option.splits)
  with assms have "fst (begone_body env q w) \<noteq> Inl ConnectionError"
    by simp
  then have "begone env q w = begone_body env q w"
    unfolding begone_def by (rule retry_passes)
  with b show "begone env q w =
              (if status = ''administrator'' \<or> status = ''creator''
               then (delete_message env (chat_id (cq_message q)) (message_id (cq_message q)),
                     w\<lparr>trace := trace w @ [GetChatMember (chat_id (cq_message q)) (cq_from_user q),
                          Log ''Got deletion request'',
                          DeleteMessage (chat_id (cq_message q)) (message_id (cq_message q))]\<rparr>)
               else (Inr (), w\<lparr>trace := trace w @ [GetChatMember (chat_id (cq_message q)) (cq_from_user q),
                          Log ''Got deletion request'']\<rparr>))"
    by simp
qed

theorem begone_admin_counterexample:
  "fst (is_from_group_admin_or_creator (example_env []) (AQuery admin_query) (example_world None None))
     = Inr True
   \<and> reply_to_message (cq_message admin_query) = Some tagged_msg
   \<and> from_user tagged_msg = Some 9
   \<and> cq_from_user admin_query = 5
   \<and> begone (example_env []) admin_query (example_world None None)
     = (Inr (), (example_world None None)\<lparr>trace := [Log ''Got deletion request'']\<rparr>)"
  by (simp add: admin_query_def tagged_msg_def example_env_def example_world_def action_defs
        begone_def begone_body_def retry_passes)

theorem begone_permission_witness:
  "begone (example_env []) member_query (example_world None None)
     = (Inr (), (example_world None None)\<lparr>trace :=
          [Log ''Got deletion request'', DeleteMessage (-100) 31]\<rparr>)
   \<and> begone (example_env []) private_query (example_world None None)
     = (Inr (), (example_world None None)\<lparr>trace :=
          [Log ''Got deletion request'', DeleteMessage 7 21]\<rparr>)
   \<and> begone (example_env []) (orphan_query 5) (example_world None None)
     = (Inr (), (example_world None None)\<lparr>trace :=
          [GetChatMember (-100) 5, Log ''Got deletion request'', DeleteMessage (-100) 32]\<rparr>)
   \<and> begone (example_env []) (orphan_query 9) (example_world None None)
     = (Inr (), (example_world None None)\<lparr>trace :=
          [GetChatMember (-100) 9, Log ''Got deletion request'']\<rparr>)"
proof -
  have d: "delete_message (example_env []) (chat_id (cq_message q)) (message_id (cq_message q))
             \<noteq> Inl ConnectionError" for q
    by (simp add: example_env_def)
  show ?thesis
    using begone_permission [OF d, of member_query "example_world None None"]
          begone_permission [OF d, of private_query "example_world None None"]
          begone_permission [OF d, of "orphan_query 5" "example_world None None"]
          begone_permission [OF d, of "orphan_query 9" "example_world None None"]
    by (simp add: member_query_def private_query_def orphan_query_def tagged_msg_def
          reply_author_def example_env_def example_world_def)
qed

subsection \<open>Rendering\<close>

text \<open>
  Claim C10. When the renderer and the gateway answer every call, \<open>set_snippet_filetype\<close>
  renders and sends one image, in the dark theme, for a snippet of a chat that is not
  private, and two, dark then light, for a snippet of a private chat; both when called
  from \<open>intake_snippet\<close> and when called by a button of the syntax keyboard.
\<close>

theorem themes_per_chat_type:
  assumes "all_succeed env" and "from_user snippet = Some user"
  shows "(ext \<noteq> [] \<longrightarrow>
           (\<exists>w'. set_snippet_filetype env None (Some snippet) (Some ext) w = (Inr (), w')
              \<and> themes_rendered (trace w') = themes_rendered (trace w)
                   @ (if chat_type snippet = ''private'' then [''Coldark-Dark'', ''Coldark-Cold'']
                      else [''Coldark-Dark''])
              \<and> images_sent (trace w') = images_sent (trace w)
                   + (if chat_type snippet = ''private'' then 2 else 1)))
       \<and> (reply_to_message (cq_message q) = Some snippet \<longrightarrow>
           (\<exists>w'. set_snippet_filetype env (Some q) other_snippet other_ext w = (Inr (), w')
              \<and> themes_rendered (trace w') = themes_rendered (trace w)
                   @ (if chat_type snippet = ''private'' then [''Coldark-Dark'', ''Coldark-Cold'']
                      else [''Coldark-Dark''])
              \<and> images_sent (trace w') = images_sent (trace w)
                   + (if chat_type snippet = ''private'' then 2 else 1)))"
proof (intro conjI impI)
  define themes where "themes = [''Coldark-Dark''] @ (if chat_type snippet = ''private'' then [''Coldark-Cold''] else [])"
  define text_content where "text_content = (if chat_type snippet \<noteq> ''private'' then code_subcontent snippet
                                         else Some (msg_text snippet))"
  {
    assume x: "ext \<noteq> []"
    define w1 where "w1 = w\<lparr>trace := trace w @ [Log ''colorizing code'']\<rparr>"
    obtain w' where
      r: "send_themes env snippet text_content ext (chat_type snippet = ''private'') themes w1 = (Inr (), w')"
      and t: "themes_rendered (trace w') = themes_rendered (trace w1) @ themes"
             "images_sent (trace w') = images_sent (trace w1) + length themes"
      using send_themes_succeeds [OF assms(1)] by blast
    have b: "set_snippet_filetype_body env None (Some snippet) (Some ext) w = (Inr (), w')"
      using x assms(2) r
      by (simp add: set_snippet_filetype_body_def action_defs Let_def w1_def themes_def text_content_def)
    then have "set_snippet_filetype env None (Some snippet) (Some ext) w = (Inr (), w')"
      by (simp add: set_snippet_filetype_def retry_passes)
    moreover have "themes_rendered (trace w') = themes_rendered (trace w)
                   @ (if chat_type snippet = ''private'' then [''Coldark-Dark'', ''Coldark-Cold'']
                      else [''Coldark-Dark''])"
      and "images_sent (trace w') = images_sent (trace w)
                   + (if chat_type snippet = ''private'' then 2 else 1)"
      using t by (simp_all add: w1_def themes_def) (simp_all add: themes_rendered_def images_sent_def)
    ultimately show "\<exists>w'. set_snippet_filetype env None (Some snippet) (Some ext) w = (Inr (), w')
              \<and> themes_rendered (trace w') = themes_rendered (trace w)
                   @ (if chat_type snippet = ''private'' then [''Coldark-Dark'', ''Coldark-Cold'']
                      else [''Coldark-Dark''])
              \<and> images_sent (trace w') = images_sent (trace w)
                   + (if chat_type snippet = ''private'' then 2 else 1)"
      by blast
  }
  {
    assume x: "reply_to_message (cq_message q) = Some snippet"
    define w1 where "w1 = w\<lparr>trace := trace w @
       [EditMessageReplyMarkup (chat_id (cq_message q)) (message_id (cq_message q)) (minikb ''syntax''),
        Log ''colorizing code'']\<rparr>"
    from assms(1) have e: "edit_message_reply_markup env (chat_id (cq_message q)) (message_id (cq_message q))
                               (minikb ''syntax'') = Inr ()"
      and a: "answer_callback_query env (cq_id q) = Inr ()"
      unfolding all_succeed_def by (metis not_isl_Inr old.unit.exhaust)+
    obtain w2 where
      r: "send_themes env snippet text_content (cq_ext q) (chat_type snippet = ''private'') themes w1 = (Inr (), w2)"
      and t: "themes_rendered (trace w2) = themes_rendered (trace w1) @ themes"
             "images_sent (trace w2) = images_sent (trace w1) + length themes"
      using send_themes_succeeds [OF assms(1)] by blast
    define w' where "w' = w2\<lparr>trace := trace w2 @ [AnswerCallbackQuery (cq_id q)]\<rparr>"
    have b: "set_snippet_filetype_body env (Some q) other_snippet other_ext w = (Inr (), w')"
      using x assms(2) r e a
      by (simp add: set_snippet_filetype_body_def action_defs Let_def w1_def w'_def themes_def text_content_def)
    then have "set_snippet_filetype env (Some q) other_snippet other_ext w = (Inr (), w')"
      by (simp add: set_snippet_filetype_def retry_passes)
    moreover have "themes_rendered (trace w') = themes_rendered (trace w)
                   @ (if chat_type snippet = ''private'' then [''Coldark-Dark'', ''Coldark-Cold'']
                      else [''Coldark-Dark''])"
      and "images_sent (trace w') = images_sent (trace w)
                   + (if chat_type snippet = ''private'' then 2 else 1)"
      using t by (simp_all add: w1_def w'_def themes_def) (simp_all add: themes_rendered_def images_sent_def)
    ultimately show "\<exists>w'. set_snippet_filetype env (Some q) other_snippet other_ext w = (Inr (), w')
              \<and> themes_rendered (trace w') = themes_rendered (trace w)
                   @ (if chat_type snippet = ''private'' then [''Coldark-Dark'', ''Coldark-Cold'']
                      else [''Coldark-Dark''])
              \<and> images_sent (trace w') = images_sent (trace w)
                   + (if chat_type snippet = ''private'' then 2 else 1)"
      by blast
  }
qed

theorem themes_per_chat_type_witness:
  "themes_rendered (trace (snd (set_snippet_filetype (example_env []) None (Some tagged_msg)
      (Some ''py'') (example_world None None)))) = [''Coldark-Dark'']
   \<and> images_sent (trace (snd (set_snippet_filetype (example_env []) None (Some tagged_msg)
      (Some ''py'') (example_world None None)))) = 1
   \<and> themes_rendered (trace (snd (set_snippet_filetype (example_env []) None (Some private_msg)
      (Some ''json'') (example_world None None)))) = [''Coldark-Dark'', ''Coldark-Cold'']
   \<and> images_sent (trace (snd (set_snippet_filetype (example_env []) None (Some private_msg)
      (Some ''json'') (example_world None None)))) = 2
   \<and> themes_rendered (trace (snd (set_snippet_filetype (example_env []) (Some admin_query) None
      None (example_world None None)))) = [''Coldark-Dark'']"
proof -
  have ok: "all_succeed (example_env [])"
    by (simp add: all_succeed_def example_env_def)
  have u: "from_user tagged_msg = Some 9" and v: "from_user private_msg = Some 7"
    by (simp_all add: tagged_msg_def private_msg_def)
  have t: "chat_type tagged_msg \<noteq> ''private''" and p: "chat_type private_msg = ''private''"
    by (simp_all add: tagged_msg_def private_msg_def)
  have e: "trace (example_world None None) = []"
    by (simp add: example_world_def)
  have z: "themes_rendered [] = []" "images_sent [] = 0"
    by (simp_all add: themes_rendered_def images_sent_def)
  have r: "reply_to_message (cq_message admin_query) = Some tagged_msg"
    by (simp add: admin_query_def)
  note group = themes_per_chat_type [OF ok u, where ext = "''py''" and w = "example_world None None"
            and q = admin_query and other_snippet = None and other_ext = None]
  have a: "\<exists>w'. set_snippet_filetype (example_env []) None (Some tagged_msg) (Some ''py'')
                  (example_world None None) = (Inr (), w')
               \<and> themes_rendered (trace w') = [''Coldark-Dark''] \<and> images_sent (trace w') = 1"
    using group t e z by simp
  have b: "\<exists>w'. set_snippet_filetype (example_env []) None (Some private_msg) (Some ''json'')
                  (example_world None None) = (Inr (), w')
               \<and> themes_rendered (trace w') = [''Coldark-Dark'', ''Coldark-Cold'']
               \<and> images_sent (trace w') = 2"
    using themes_per_chat_type [OF ok v, where ext = "''json''" and w = "example_world None None"
            and q = admin_query and other_snippet = None and other_ext = None] p e z
    by (auto simp: numeral_2_eq_2)
  have c: "\<exists>w'. set_snippet_filetype (example_env []) (Some admin_query) None None
                  (example_world None None) = (Inr (), w')
               \<and> themes_rendered (trace w') = [''Coldark-Dark'']"
    using group r t e z by auto
  from a b c show ?thesis
    by auto
qed

text \<open>
  Claim C8, as the code has it. The loop over the themes has no handler of its own: an
  exception of \<open>mk_png\<close>, or of \<open>send_image\<close> after its retries, ends the loop with
  that exception, and the themes after it are not attempted. The one failure kept
  inside is an \<open>ApiException\<close> of \<open>send_photo\<close>, after which the same image is sent
  as a document.
\<close>

theorem failure_ends_theme_loop:
  "(silicon env text_content ext theme = Inl e \<longrightarrow>
      send_themes env snippet text_content ext do_attach_send_kb (theme # themes) w
        = (Inl e, w\<lparr>trace := trace w @ [MkPng text_content ext theme]\<rparr>))
   \<and> (\<forall>png_path w'.
         silicon env text_content ext theme = Inr png_path
         \<and> send_image env (chat_id snippet) png_path (message_id snippet) False
              (w\<lparr>trace := trace w @ [MkPng text_content ext theme]\<rparr>) = (Inl e, w') \<longrightarrow>
         send_themes env snippet text_content ext do_attach_send_kb (theme # themes) w = (Inl e, w'))
   \<and> (\<forall>png_path.
         st_size env png_path < 300000
         \<and> send_chat_action env chat = Inr ()
         \<and> send_photo env chat png_path reply_msg_id = Inl ApiException \<longrightarrow>
         send_image_body env chat png_path reply_msg_id False w
           = (send_document env chat png_path reply_msg_id,
              w\<lparr>trace := trace w @ [SendChatAction chat, SendPhoto chat png_path reply_msg_id,
                                      SendDocument chat png_path reply_msg_id]\<rparr>))"
  by (simp add: mk_png_def send_image_body_def action_defs)

theorem failure_ends_theme_loop_witness:
  "send_themes dark_fails_env private_msg (Some (str ''{ 1 }'')) ''json'' True
     [''Coldark-Dark'', ''Coldark-Cold''] (example_world None None)
   = (Inl ProcessExecutionError,
      (example_world None None)\<lparr>trace := [MkPng (Some (str ''{ 1 }'')) ''json'' ''Coldark-Dark'']\<rparr>)
   \<and> send_themes upload_fails_env private_msg (Some (str ''{ 1 }'')) ''json'' True
     [''Coldark-Dark'', ''Coldark-Cold''] (example_world None None)
   = (Inl ApiException,
      (example_world None None)\<lparr>trace :=
         [MkPng (Some (str ''{ 1 }'')) ''json'' ''Coldark-Dark'', SendChatAction 7,
          SendPhoto 7 ''/tmp/Coldark-Dark.png'' 20, SendDocument 7 ''/tmp/Coldark-Dark.png'' 20]\<rparr>)
   \<and> send_image_body photo_fails_env 7 ''/tmp/Coldark-Dark.png'' 20 False (example_world None None)
   = (Inr \<lparr>sent_chat_id = 7, sent_message_id = 22, sent_content_type = ''document'',
            sent_file_id = ''f2''\<rparr>,
      (example_world None None)\<lparr>trace :=
         [SendChatAction 7, SendPhoto 7 ''/tmp/Coldark-Dark.png'' 20,
          SendDocument 7 ''/tmp/Coldark-Dark.png'' 20]\<rparr>)"
proof -
  have r: "silicon dark_fails_env (Some (str ''{ 1 }'')) ''json'' ''Coldark-Dark'' = Inl ProcessExecutionError"
    by (simp add: dark_fails_env_def)
  have s: "silicon upload_fails_env (Some (str ''{ 1 }'')) ''json'' ''Coldark-Dark'' = Inr ''/tmp/Coldark-Dark.png''"
    by (simp add: upload_fails_env_def photo_fails_env_def example_env_def)
  have "send_image_body upload_fails_env (chat_id private_msg) ''/tmp/Coldark-Dark.png''
          (message_id private_msg) False
          ((example_world None None)\<lparr>trace := trace (example_world None None)
             @ [MkPng (Some (str ''{ 1 }'')) ''json'' ''Coldark-Dark'']\<rparr>)
        = (Inl ApiException,
           (example_world None None)\<lparr>trace :=
              [MkPng (Some (str ''{ 1 }'')) ''json'' ''Coldark-Dark'', SendChatAction 7,
               SendPhoto 7 ''/tmp/Coldark-Dark.png'' 20, SendDocument 7 ''/tmp/Coldark-Dark.png'' 20]\<rparr>)"
    by (simp add: send_image_body_def action_defs Let_def upload_fails_env_def photo_fails_env_def
          example_env_def example_world_def private_msg_def)
  then have i: "send_image upload_fails_env (chat_id private_msg) ''/tmp/Coldark-Dark.png''
          (message_id private_msg) False
          ((example_world None None)\<lparr>trace := trace (example_world None None)
             @ [MkPng (Some (str ''{ 1 }'')) ''json'' ''Coldark-Dark'']\<rparr>)
        = (Inl ApiException,
           (example_world None None)\<lparr>trace :=
              [MkPng (Some (str ''{ 1 }'')) ''json'' ''Coldark-Dark'', SendChatAction 7,
               SendPhoto 7 ''/tmp/Coldark-Dark.png'' 20, SendDocument 7 ''/tmp/Coldark-Dark.png'' 20]\<rparr>)"
    by (simp add: send_image_def retry_passes)
  have p: "st_size photo_fails_env ''/tmp/Coldark-Dark.png'' < 300000
           \<and> send_chat_action photo_fails_env 7 = Inr ()
           \<and> send_photo photo_fails_env 7 ''/tmp/Coldark-Dark.png'' 20 = Inl ApiException"
    by (simp add: photo_fails_env_def example_env_def)
  have a: "send_themes dark_fails_env private_msg (Some (str ''{ 1 }'')) ''json'' True
     (''Coldark-Dark'' # [''Coldark-Cold'']) (example_world None None)
   = (Inl ProcessExecutionError,
      (example_world None None)\<lparr>trace := trace (example_world None None)
         @ [MkPng (Some (str ''{ 1 }'')) ''json'' ''Coldark-Dark'']\<rparr>)"
    using failure_ends_theme_loop [of dark_fails_env "Some (str ''{ 1 }'')" "''json''" "''Coldark-Dark''"
            ProcessExecutionError private_msg True "[''Coldark-Cold'']" "example_world None None"] r
    by blast
  have b: "send_themes upload_fails_env private_msg (Some (str ''{ 1 }'')) ''json'' True
     (''Coldark-Dark'' # [''Coldark-Cold'']) (example_world None None)
   = (Inl ApiException,
      (example_world None None)\<lparr>trace :=
         [MkPng (Some (str ''{ 1 }'')) ''json'' ''Coldark-Dark'', SendChatAction 7,
          SendPhoto 7 ''/tmp/Coldark-Dark.png'' 20, SendDocument 7 ''/tmp/Coldark-Dark.png'' 20]\<rparr>)"
    using failure_ends_theme_loop [of upload_fails_env "Some (str ''{ 1 }'')" "''json''" "''Coldark-Dark''"
            ApiException private_msg True "[''Coldark-Cold'']" "example_world None None"] s i
    by blast
  have c: "send_image_body photo_fails_env 7 ''/tmp/Coldark-Dark.png'' 20 False (example_world None None)
           = (send_document photo_fails_env 7 ''/tmp/Coldark-Dark.png'' 20,
              (example_world None None)\<lparr>trace := trace (example_world None None)
                 @ [SendChatAction 7, SendPhoto 7 ''/tmp/Coldark-Dark.png'' 20,
                    SendDocument 7 ''/tmp/Coldark-Dark.png'' 20]\<rparr>)"
    using failure_ends_theme_loop [where env = photo_fails_env and chat = 7 and reply_msg_id = 20
            and w = "example_world None None"] p
    by blast
  from a b c show ?thesis
    by (simp add: example_world_def photo_fails_env_def example_env_def)
qed

theorem render_failure_counterexample:
  "silicon dark_fails_env (Some (str ''{ 1 }'')) ''json'' ''Coldark-Cold'' = Inr ''/tmp/Coldark-Cold.png''
   \<and> set_snippet_filetype dark_fails_env None (Some private_msg) (Some ''json'') (example_world None None)
     = (Inl ProcessExecutionError,
        (example_world None None)\<lparr>trace :=
           [Log ''colorizing code'', MkPng (Some (str ''{ 1 }'')) ''json'' ''Coldark-Dark'']\<rparr>)"
proof -
  have "set_snippet_filetype_body dark_fails_env None (Some private_msg) (Some ''json'') (example_world None None)
     = (Inl ProcessExecutionError,
        (example_world None None)\<lparr>trace :=
           [Log ''colorizing code'', MkPng (Some (str ''{ 1 }'')) ''json'' ''Coldark-Dark'']\<rparr>)"
    by (simp add: set_snippet_filetype_body_def private_msg_def action_defs mk_png_def Let_def
          dark_fails_env_def example_env_def example_world_def)
  then show ?thesis
    by (simp add: set_snippet_filetype_def retry_passes dark_fails_env_def example_env_def)
qed

end
